theory Spec2Isabelle
  imports Complex_Main "HOL-Library.AList" "HOL-Library.Char_ord" "HOL-Library.List_Lexorder"
begin

section \<open>The Level-1 product writer of pyspex (lv1\_io.py) and the packet-file loop\<close>

text \<open>
  The classes \<open>Lv1io\<close>, \<open>L1Aio\<close> and \<open>L1Bio\<close> of \<open>src/pyspex/lv1_io.py\<close> are embedded
  as functions on an explicit state. A Python exception is a value of \<open>error\<close>; an
  operation returns the exception it raised (if any) together with the state it left
  behind, because a raise in the middle of a method keeps the mutations made before it.
  float64 values are modelled by the real numbers they denote (rounding of the
  arithmetic is not modelled); a float that is not finite is the cell \<open>CNaN\<close>.
\<close>

subsection \<open>Exceptions\<close>

text \<open>
  The exceptions the modelled code can raise. \<open>ClosedProductError\<close> is the name used by
  the specification; no statement of lv1\_io.py constructs it.
\<close>

datatype error =
    KeyError | TypeError | AttributeError | IndexError | ValueError | OverflowError
  | FileNotFoundError | ClosedProductError

subsection \<open>PurePosixPath: parent and name of a dataset path\<close>

text \<open>\<open>str.split('/')\<close>.\<close>

fun split_slash :: "string \<Rightarrow> string list" where
  "split_slash [] = [[]]"
| "split_slash (c # cs) =
     (if c = CHR ''/'' then [] # split_slash cs
      else (case split_slash cs of [] \<Rightarrow> [[c]] | p # ps \<Rightarrow> (c # p) # ps))"

text \<open>\<open>'/'.join(parts)\<close>.\<close>

fun join_slash :: "string list \<Rightarrow> string" where
  "join_slash [] = []"
| "join_slash [p] = p"
| "join_slash (p # q # ps) = p @ ''/'' @ join_slash (q # ps)"

text \<open>
  The components of a POSIX path: empty components and \<open>.\<close> are dropped when the path
  is parsed. The root is \<open>/\<close>, or \<open>//\<close> for exactly two leading slashes.
\<close>

definition path_parts :: "string \<Rightarrow> string list" where
  "path_parts s = filter (\<lambda>p. p \<noteq> [] \<and> p \<noteq> ''.'') (split_slash s)"

definition path_root :: "string \<Rightarrow> string" where
  "path_root s =
     (if take 1 s = ''/'' then
        (if take 2 s = ''//'' \<and> take 3 s \<noteq> ''///'' then ''//'' else ''/'')
      else [])"

text \<open>\<open>str(PurePosixPath(s).parent)\<close> and \<open>str(PurePosixPath(s).name)\<close>.\<close>

definition path_parent :: "string \<Rightarrow> string" where
  "path_parent s =
     (let r = path_root s; ps = path_parts s in
      if ps = [] then (if r = [] then ''.'' else r)
      else if r = [] \<and> butlast ps = [] then ''.''
      else r @ join_slash (butlast ps))"

definition path_name :: "string \<Rightarrow> string" where
  "path_name s = (case path_parts s of [] \<Rightarrow> [] | p # ps \<Rightarrow> last (p # ps))"

text \<open>\<open>str.startswith\<close>.\<close>

definition startswith :: "string \<Rightarrow> string \<Rightarrow> bool" where
  "startswith s p = (take (length p) s = p)"

subsection \<open>Array data\<close>

text \<open>
  One record of the NomHK structured array: the three temperature-sensor readings that
  \<open>fill_nomhk\<close> reads, and the remaining fields as name/value pairs.
\<close>

record nomhk =
  TS1_DEM_N_T :: int
  TS2_HOUSING_N_T :: int
  TS3_RADIATOR_N_T :: int
  other_fields :: "(string \<times> int) list"

text \<open>
  An element along the first axis of an array: an integer, a finite float, a float that
  is not finite, a housekeeping record, or a sub-array (a row of a variable with more
  than one dimension).
\<close>

datatype cell = CInt int | CFloat real | CNaN | CRec nomhk | CArr "cell list"

text \<open>
  \<open>np.asarray(value)\<close>: a 0-dimensional array (shape \<open>()\<close>) or an array whose first axis
  has the listed rows.
\<close>

datatype ndarray = Scalar cell | Array "cell list"

text \<open>\<open>1 if value.shape == () else value.shape[0]\<close>.\<close>

fun shape0 :: "ndarray \<Rightarrow> nat" where
  "shape0 (Scalar c) = 1"
| "shape0 (Array rs) = length rs"

subsection \<open>The netCDF4 dataset\<close>

text \<open>
  The open file handle \<open>self.fid\<close>, as far as lv1\_io.py uses it: the dimensions of the
  root group, the groups and variables by their path components, and the attributes by
  owner path and name (the owner \<open>[]\<close> is the file itself). A variable keeps the rows
  written so far; rows below the size of its first dimension that were never written
  read as its fill value.
\<close>

record ncdim =
  dsize :: nat
  isunlimited :: bool

record ncvar =
  vdims :: "string list"
  vdata :: "cell list"
  vfill :: cell

datatype attrval = ANum int | AStr string | AStrs "string list"

record ncfile =
  dimensions :: "string \<rightharpoonup> ncdim"
  groups :: "string list set"
  variables :: "string list \<rightharpoonup> ncvar"
  ncattrs :: "string list \<times> string \<rightharpoonup> attrval"

datatype ncobj = Grp "string list" | Var "string list"

text \<open>
  \<open>Dataset.__getitem__(path)\<close>: walk down the groups named by the path, then return the
  group or the variable of the last name. A missing intermediate group is a KeyError
  of the groups dictionary, a missing last name an IndexError.
\<close>

fun groups_exist :: "ncfile \<Rightarrow> string list \<Rightarrow> string list \<Rightarrow> bool" where
  "groups_exist f pre [] = True"
| "groups_exist f pre (g # gs) = (pre @ [g] \<in> groups f \<and> groups_exist f (pre @ [g]) gs)"

definition nc_getitem :: "ncfile \<Rightarrow> string \<Rightarrow> error + ncobj" where
  "nc_getitem f p =
     (let cs = path_parts p in
      if cs = [] then Inl IndexError
      else if \<not> groups_exist f [] (butlast cs) then Inl KeyError
      else if cs \<in> groups f then Inr (Grp cs)
      else if variables f cs \<noteq> None then Inr (Var cs)
      else Inl IndexError)"

text \<open>\<open>Variable.get_dims()\<close>: the dimension objects of a variable.\<close>

fun get_dims :: "ncfile \<Rightarrow> string list \<Rightarrow> ncdim list option" where
  "get_dims f [] = Some []"
| "get_dims f (d # ds) =
     (case dimensions f d of None \<Rightarrow> None
      | Some dm \<Rightarrow> (case get_dims f ds of None \<Rightarrow> None | Some dms \<Rightarrow> Some (dm # dms)))"

text \<open>
  \<open>var[...] = value\<close> on a variable without dimensions (\<open>n = None\<close>) or with a first
  dimension of size \<open>n\<close>: the value must have that many rows or be broadcast from one.
\<close>

fun nc_assign_all :: "nat option \<Rightarrow> ndarray \<Rightarrow> error + cell list" where
  "nc_assign_all None (Scalar c) = Inr [c]"
| "nc_assign_all None (Array rs) = (if length rs = 1 then Inr rs else Inl ValueError)"
| "nc_assign_all (Some n) (Scalar c) = Inr (replicate n c)"
| "nc_assign_all (Some n) (Array rs) =
     (if length rs = n then Inr rs
      else if length rs = 1 then Inr (replicate n (hd rs))
      else Inl ValueError)"

text \<open>
  \<open>var[ibgn:, ...] = value\<close> on a variable whose first dimension is unlimited and has
  the current size \<open>len\<close>: an array is stored in the rows from \<open>ibgn\<close> on and the
  dimension grows as needed; a 0-dimensional value is broadcast over the rows from
  \<open>ibgn\<close> to the end of the dimension (one row when the dimension is still empty).
  The result is the new data and the new size of the dimension.
\<close>

definition nc_put :: "cell list \<Rightarrow> cell \<Rightarrow> nat \<Rightarrow> cell list \<Rightarrow> cell list" where
  "nc_put old fillv start rows =
     (if rows = [] then old
      else take start (old @ replicate (start - length old) fillv) @ rows
           @ drop (start + length rows) old)"

fun nc_assign_from :: "ncvar \<Rightarrow> nat \<Rightarrow> nat \<Rightarrow> ndarray \<Rightarrow> cell list \<times> nat" where
  "nc_assign_from v len ibgn (Array rs) =
     (nc_put (vdata v) (vfill v) ibgn rs,
      (if rs = [] then len else max len (ibgn + length rs)))"
| "nc_assign_from v len ibgn (Scalar c) =
     (let len' = (if len = 0 then 1 else len) in
      (nc_put (vdata v) (vfill v) ibgn (replicate (len' - ibgn) c),
       (if ibgn < len' then len' else len)))"

subsection \<open>datetime, timedelta and isoformat\<close>

text \<open>
  The part of Python's \<open>datetime\<close> module that \<open>close\<close> uses. A datetime is the
  proleptic Gregorian ordinal of its day (0001-01-01 is day 1), the microsecond within
  the day, and whether it carries the UTC time zone. A timedelta is its length in
  microseconds.
\<close>

record datetime =
  dt_ordinal :: int
  dt_usec :: int
  dt_utc :: bool

definition is_leap :: "int \<Rightarrow> bool" where
  "is_leap y = (y mod 4 = 0 \<and> (y mod 100 \<noteq> 0 \<or> y mod 400 = 0))"

definition days_before_year :: "int \<Rightarrow> int" where
  "days_before_year y = (let y1 = y - 1 in y1 * 365 + y1 div 4 - y1 div 100 + y1 div 400)"

definition days_in_month :: "int \<Rightarrow> int \<Rightarrow> int" where
  "days_in_month y m =
     (if m = 2 then (if is_leap y then 29 else 28)
      else if m = 4 \<or> m = 6 \<or> m = 9 \<or> m = 11 then 30 else 31)"

definition days_before_month :: "int \<Rightarrow> int \<Rightarrow> int" where
  "days_before_month y m =
     [0, 31, 59, 90, 120, 151, 181, 212, 243, 273, 304, 334] ! nat (m - 1)
     + (if m > 2 \<and> is_leap y then 1 else 0)"

definition ymd2ord :: "int \<Rightarrow> int \<Rightarrow> int \<Rightarrow> int" where
  "ymd2ord y m d = days_before_year y + days_before_month y m + d"

definition ord2ymd :: "int \<Rightarrow> int \<times> int \<times> int" where
  "ord2ymd n0 =
     (let n = n0 - 1;
          n400 = n div 146097; n = n mod 146097;
          n100 = n div 36524; n = n mod 36524;
          n4 = n div 1461; n = n mod 1461;
          n1 = n div 365; n = n mod 365;
          year = n400 * 400 + 1 + n100 * 100 + n4 * 4 + n1
      in if n1 = 4 \<or> n100 = 4 then (year - 1, 12, 31)
         else
           (let leapyear = (n1 = 3 \<and> (n4 \<noteq> 24 \<or> n100 = 3));
                month = (n + 50) div 32;
                preceding = days_before_month year month;
                month' = (if preceding > n then month - 1 else month);
                preceding' = (if preceding > n then preceding - days_in_month year month'
                              else preceding)
            in (year, month', n - preceding' + 1)))"

text \<open>\<open>datetime(year, month, day, tzinfo=...)\<close>: a ValueError outside the calendar.\<close>

definition mk_datetime :: "int \<Rightarrow> int \<Rightarrow> int \<Rightarrow> bool \<Rightarrow> error + datetime" where
  "mk_datetime y m d utc =
     (if 1 \<le> y \<and> y \<le> 9999 \<and> 1 \<le> m \<and> m \<le> 12 \<and> 1 \<le> d \<and> d \<le> days_in_month y m
      then Inr \<lparr>dt_ordinal = ymd2ord y m d, dt_usec = 0, dt_utc = utc\<rparr>
      else Inl ValueError)"

definition usec_per_day :: int where
  "usec_per_day = 86400000000"

text \<open>A timedelta holds at most 999999999 days in either direction.\<close>

definition mk_timedelta :: "int \<Rightarrow> error + int" where
  "mk_timedelta us =
     (if - 999999999 \<le> us div usec_per_day \<and> us div usec_per_day \<le> 999999999 then Inr us
      else Inl OverflowError)"

definition round_half_even :: "real \<Rightarrow> int" where
  "round_half_even x =
     (let f = \<lfloor>x\<rfloor>; d = x - of_int f in
      if d < 1 / 2 then f else if d > 1 / 2 then f + 1
      else if even f then f else f + 1)"

text \<open>\<open>int(x)\<close> of a float: truncation towards zero.\<close>

definition trunc :: "real \<Rightarrow> int" where
  "trunc x = (if x \<ge> 0 then \<lfloor>x\<rfloor> else \<lceil>x\<rceil>)"

text \<open>
  \<open>timedelta(seconds=float(c))\<close> for an array element \<open>c\<close>: the microseconds are rounded
  half to even.
\<close>

fun timedelta_float_seconds :: "cell \<Rightarrow> error + int" where
  "timedelta_float_seconds (CInt n) = mk_timedelta (n * 1000000)"
| "timedelta_float_seconds (CFloat r) = mk_timedelta (round_half_even (r * 1000000))"
| "timedelta_float_seconds CNaN = Inl ValueError"
| "timedelta_float_seconds (CRec h) = Inl TypeError"
| "timedelta_float_seconds (CArr cs) = Inl TypeError"

text \<open>\<open>timedelta(seconds=int(c))\<close> and \<open>timedelta(microseconds=int(c % 1))\<close>.\<close>

fun timedelta_int_seconds :: "cell \<Rightarrow> error + int" where
  "timedelta_int_seconds (CInt n) = mk_timedelta (n * 1000000)"
| "timedelta_int_seconds (CFloat r) = mk_timedelta (trunc r * 1000000)"
| "timedelta_int_seconds CNaN = Inl ValueError"
| "timedelta_int_seconds (CRec h) = Inl TypeError"
| "timedelta_int_seconds (CArr cs) = Inl TypeError"

fun timedelta_int_frac_microseconds :: "cell \<Rightarrow> error + int" where
  "timedelta_int_frac_microseconds (CInt n) = mk_timedelta (n mod 1)"
| "timedelta_int_frac_microseconds (CFloat r) = mk_timedelta (trunc (r - of_int \<lfloor>r\<rfloor>))"
| "timedelta_int_frac_microseconds CNaN = Inl ValueError"
| "timedelta_int_frac_microseconds (CRec h) = Inl TypeError"
| "timedelta_int_frac_microseconds (CArr cs) = Inl TypeError"

text \<open>\<open>datetime + timedelta\<close>: an OverflowError outside the years 1 to 9999.\<close>

definition dt_add :: "datetime \<Rightarrow> int \<Rightarrow> error + datetime" where
  "dt_add t td =
     (let total = dt_ordinal t * usec_per_day + dt_usec t + td;
          days = total div usec_per_day
      in if 0 < days \<and> days \<le> 3652059
         then Inr (t\<lparr>dt_ordinal := days, dt_usec := total mod usec_per_day\<rparr>)
         else Inl OverflowError)"

text \<open>Decimal digits of a natural number, and \<open>'%0wd'\<close>.\<close>

definition digit_char :: "nat \<Rightarrow> char" where
  "digit_char d = ''0123456789'' ! d"

fun digits :: "nat \<Rightarrow> string" where
  "digits n =
     (if n < 10 then [digit_char n]
      else digits (n div 10) @ [digit_char (n mod 10)])"

declare digits.simps [simp del]

definition zero_pad :: "nat \<Rightarrow> int \<Rightarrow> string" where
  "zero_pad w n = replicate (w - length (digits (nat n))) CHR ''0'' @ digits (nat n)"

text \<open>\<open>isoformat(timespec='milliseconds')\<close>: the microseconds are cut to milliseconds.\<close>

definition isoformat_ms :: "datetime \<Rightarrow> string" where
  "isoformat_ms t =
     (case ord2ymd (dt_ordinal t) of (y, m, d) \<Rightarrow>
        let secs = dt_usec t div 1000000; us = dt_usec t mod 1000000 in
        zero_pad 4 y @ ''-'' @ zero_pad 2 m @ ''-'' @ zero_pad 2 d @ ''T''
        @ zero_pad 2 (secs div 3600) @ '':'' @ zero_pad 2 (secs mod 3600 div 60) @ '':''
        @ zero_pad 2 (secs mod 60) @ ''.'' @ zero_pad 3 (us div 1000)
        @ (if dt_utc t then ''+00:00'' else []))"

subsection \<open>The state: class attribute, instance attributes, output\<close>

text \<open>
  \<open>dset_stored\<close> is the dictionary that the class body of \<open>L1Aio\<close> (or \<open>L1Bio\<close>) binds:
  a class attribute, one object for the whole process, which the methods reach as
  \<open>self.dset_stored\<close> and update in place. It is an association list in the order of
  the dictionary. \<open>product\<close>, \<open>fid\<close> and \<open>epoch\<close> are the attributes of the instance,
  \<open>stdout\<close> the lines printed so far, and \<open>ondisk\<close> the file as the last
  \<open>self.fid.close()\<close> left it.
\<close>

record state =
  dset_stored :: "(string \<times> nat) list"
  product :: string
  fid :: "ncfile option"
  epoch :: datetime
  stdout :: "string list"
  ondisk :: "ncfile option"

text \<open>\<open>self.fid.close(); self.fid = None\<close>.\<close>

definition nc_close :: "state \<Rightarrow> state" where
  "nc_close s = s\<lparr>fid := None, ondisk := fid s\<rparr>"

text \<open>Running one statement after another; an exception ends the sequence.\<close>

definition and_then ::
  "(state \<Rightarrow> error option \<times> state) \<Rightarrow> (state \<Rightarrow> error option \<times> state)
   \<Rightarrow> state \<Rightarrow> error option \<times> state" where
  "and_then a b s = (case a s of (Some e, s') \<Rightarrow> (Some e, s') | (None, s') \<Rightarrow> b s')"

subsection \<open>Lv1io\<close>

datatype level = L1A | L1B | L1C | unknown

text \<open>
  The loop of \<open>__init__\<close> in append mode:
  \<open>for key in self.dset_stored: self.dset_stored[key] = self.fid[key].shape[0]\<close>.
\<close>

fun load_stored :: "string list \<Rightarrow> state \<Rightarrow> error option \<times> state" where
  "load_stored [] s = (None, s)"
| "load_stored (key # keys) s =
     (case fid s of None \<Rightarrow> (Some TypeError, s)
      | Some f \<Rightarrow>
        (case nc_getitem f key of Inl e \<Rightarrow> (Some e, s)
         | Inr (Grp g) \<Rightarrow> (Some AttributeError, s)
         | Inr (Var p) \<Rightarrow>
           (case variables f p of None \<Rightarrow> (Some IndexError, s)
            | Some v \<Rightarrow>
              (case vdims v of [] \<Rightarrow> (Some IndexError, s)
               | d # ds \<Rightarrow>
                 (case dimensions f d of None \<Rightarrow> (Some KeyError, s)
                  | Some dm \<Rightarrow>
                      load_stored keys
                        (s\<lparr>dset_stored := AList.update key (dsize dm) (dset_stored s)\<rparr>))))))"

text \<open>
  \<open>Lv1io.__init__(product, ref_date, dims, append)\<close>. The modules \<open>pyspex.lib.l1a_def\<close>,
  \<open>l1b_def\<close> and \<open>l1c_def\<close> are not part of the sources: the file that
  \<open>init_l1a\<close>/\<open>init_l1b\<close>/\<open>init_l1c\<close> creates is the parameter \<open>init_l1x\<close>, and
  \<open>existing\<close> is what \<open>Dataset(product, "r+")\<close> opens.
\<close>

definition Lv1io_init ::
  "level \<Rightarrow> (level \<Rightarrow> string \<Rightarrow> datetime \<Rightarrow> 'd \<Rightarrow> ncfile) \<Rightarrow> ncfile option
   \<Rightarrow> string \<Rightarrow> datetime \<Rightarrow> 'd \<Rightarrow> bool \<Rightarrow> state \<Rightarrow> error option \<times> state" where
  "Lv1io_init processing_level init_l1x existing prod_name ref_date dims appnd s =
     (let s1 = s\<lparr>product := prod_name, fid := None, epoch := ref_date\<rparr> in
      if \<not> appnd then
        (if processing_level = unknown then (Some KeyError, s1)
         else (None, s1\<lparr>fid := Some (init_l1x processing_level prod_name ref_date dims)\<rparr>))
      else
        (case existing of None \<Rightarrow> (Some FileNotFoundError, s1)
         | Some f \<Rightarrow> load_stored (map fst (dset_stored s1)) (s1\<lparr>fid := Some f\<rparr>)))"

text \<open>\<open>Lv1io.close\<close>.\<close>

definition Lv1io_close :: "state \<Rightarrow> error option \<times> state" where
  "Lv1io_close s = (case fid s of None \<Rightarrow> (None, s) | Some f \<Rightarrow> (None, nc_close s))"

text \<open>\<open>Lv1io.get_dim\<close>: \<open>self.fid.dimensions[name].size\<close>.\<close>

definition get_dim :: "string \<Rightarrow> state \<Rightarrow> error + nat" where
  "get_dim name s =
     (case fid s of None \<Rightarrow> Inl AttributeError
      | Some f \<Rightarrow> (case dimensions f name of None \<Rightarrow> Inl KeyError | Some d \<Rightarrow> Inr (dsize d)))"

text \<open>
  The test that opens \<open>get_dset\<close> and \<open>set_dset\<close>: the variable must be among the
  variables of its group (or of the file, for a name without a group).
\<close>

definition dset_present :: "ncfile option \<Rightarrow> string \<Rightarrow> error option" where
  "dset_present fo name =
     (let grp_name = path_parent name; var_name = path_name name in
      if grp_name \<noteq> ''.'' then
        (case fo of None \<Rightarrow> Some TypeError
         | Some f \<Rightarrow>
           (case nc_getitem f grp_name of Inl e \<Rightarrow> Some e
            | Inr (Var p) \<Rightarrow> Some AttributeError
            | Inr (Grp g) \<Rightarrow>
                if variables f (g @ [var_name]) = None then Some KeyError else None))
      else
        (case fo of None \<Rightarrow> Some AttributeError
         | Some f \<Rightarrow> if variables f [var_name] = None then Some KeyError else None))"

text \<open>
  The three branches of \<open>set_dset\<close> that store the value in the variable \<open>v\<close> at path
  \<open>p\<close>; \<open>cur\<close> is \<open>self.dset_stored[name]\<close> when the name is a key of the table.
\<close>

definition store_value ::
  "ncfile \<Rightarrow> string list \<Rightarrow> ncvar \<Rightarrow> ncdim list \<Rightarrow> nat option \<Rightarrow> ndarray \<Rightarrow> int
   \<Rightarrow> error + ncfile" where
  "store_value f p v dims cur val ibgn =
     (case dims of
        [] \<Rightarrow>
          (case nc_assign_all None val of Inl e \<Rightarrow> Inl e
           | Inr rows \<Rightarrow> Inr (f\<lparr>variables := (variables f)(p \<mapsto> v\<lparr>vdata := rows\<rparr>)\<rparr>))
      | d # ds \<Rightarrow>
          if isunlimited d then
            (case (if ibgn < 0 then cur else Some (nat ibgn)) of
               None \<Rightarrow> Inl KeyError
             | Some i \<Rightarrow>
                 (case nc_assign_from v (dsize d) i val of (rows, len) \<Rightarrow>
                    Inr (f\<lparr>dimensions := (dimensions f)(hd (vdims v) \<mapsto> d\<lparr>dsize := len\<rparr>),
                           variables := (variables f)(p \<mapsto> v\<lparr>vdata := rows\<rparr>)\<rparr>)))
          else
            (case nc_assign_all (Some (dsize d)) val of Inl e \<Rightarrow> Inl e
             | Inr rows \<Rightarrow> Inr (f\<lparr>variables := (variables f)(p \<mapsto> v\<lparr>vdata := rows\<rparr>)\<rparr>)))"

text \<open>\<open>self.dset_stored[name] += k\<close>.\<close>

definition bump_stored :: "string \<Rightarrow> nat \<Rightarrow> state \<Rightarrow> error option \<times> state" where
  "bump_stored name k s =
     (case map_of (dset_stored s) name of None \<Rightarrow> (Some KeyError, s)
      | Some n \<Rightarrow> (None, s\<lparr>dset_stored := AList.update name (n + k) (dset_stored s)\<rparr>))"

text \<open>\<open>Lv1io.set_dset(name, value, ibgn=-1)\<close>.\<close>

definition set_dset :: "string \<Rightarrow> ndarray \<Rightarrow> int \<Rightarrow> state \<Rightarrow> error option \<times> state" where
  "set_dset name val ibgn s =
     (case dset_present (fid s) name of Some e \<Rightarrow> (Some e, s)
      | None \<Rightarrow>
        (case fid s of None \<Rightarrow> (Some TypeError, s)
         | Some f \<Rightarrow>
           (case nc_getitem f name of Inl e \<Rightarrow> (Some e, s)
            | Inr (Grp g) \<Rightarrow> (Some AttributeError, s)
            | Inr (Var p) \<Rightarrow>
              (case variables f p of None \<Rightarrow> (Some IndexError, s)
               | Some v \<Rightarrow>
                 (case get_dims f (vdims v) of None \<Rightarrow> (Some KeyError, s)
                  | Some dims \<Rightarrow>
                    (case store_value f p v dims (map_of (dset_stored s) name) val ibgn of
                       Inl e \<Rightarrow> (Some e, s)
                     | Inr f' \<Rightarrow> bump_stored name (shape0 val) (s\<lparr>fid := Some f'\<rparr>)))))))"

text \<open>\<open>Lv1io.set_attr(name, value, ds_name=None)\<close>.\<close>

definition set_attr :: "string \<Rightarrow> attrval \<Rightarrow> string option \<Rightarrow> state \<Rightarrow> error option \<times> state" where
  "set_attr name val ds_name s =
     (case ds_name of
        None \<Rightarrow>
          (case fid s of None \<Rightarrow> (Some AttributeError, s)
           | Some f \<Rightarrow> (None, s\<lparr>fid := Some (f\<lparr>ncattrs := (ncattrs f)(([], name) \<mapsto> val)\<rparr>)\<rparr>))
      | Some ds \<Rightarrow>
          (let grp_name = path_parent ds; var_name = path_name ds in
           case (if grp_name \<noteq> ''.'' then
                   (case fid s of None \<Rightarrow> Some TypeError
                    | Some f \<Rightarrow>
                      (case nc_getitem f grp_name of Inl e \<Rightarrow> Some e
                       | Inr (Var p) \<Rightarrow> Some AttributeError
                       | Inr (Grp g) \<Rightarrow>
                           if g @ [var_name] \<notin> groups f \<and> variables f (g @ [var_name]) = None
                           then Some KeyError else None))
                 else
                   (case fid s of None \<Rightarrow> Some AttributeError
                    | Some f \<Rightarrow>
                        if [var_name] \<notin> groups f \<and> variables f [var_name] = None
                        then Some KeyError else None))
           of Some e \<Rightarrow> (Some e, s)
            | None \<Rightarrow>
              (case fid s of None \<Rightarrow> (Some TypeError, s)
               | Some f \<Rightarrow>
                 (case nc_getitem f ds of Inl e \<Rightarrow> (Some e, s)
                  | Inr obj \<Rightarrow>
                      (let p = (case obj of Grp g \<Rightarrow> g | Var q \<Rightarrow> q) in
                       (None, s\<lparr>fid := Some (f\<lparr>ncattrs := (ncattrs f)((p, name) \<mapsto> val)\<rparr>)\<rparr>))))))"

subsection \<open>Reading the time variable\<close>

definition bind_err :: "error + 'a \<Rightarrow> ('a \<Rightarrow> error + 'b) \<Rightarrow> error + 'b" where
  "bind_err r k = (case r of Inl e \<Rightarrow> Inl e | Inr x \<Rightarrow> k x)"

text \<open>
  \<open>dset[i]\<close> for an integer index on a variable of the file: negative indices count
  from the end of the first dimension.
\<close>

definition nc_index :: "ncfile \<Rightarrow> ncobj \<Rightarrow> int \<Rightarrow> error + cell" where
  "nc_index f obj i =
     (case obj of Grp g \<Rightarrow> Inl TypeError
      | Var p \<Rightarrow>
        (case variables f p of None \<Rightarrow> Inl IndexError
         | Some v \<Rightarrow>
           (case vdims v of [] \<Rightarrow> Inl IndexError
            | d # ds \<Rightarrow>
              (case dimensions f d of None \<Rightarrow> Inl KeyError
               | Some dm \<Rightarrow>
                 (let n = int (dsize dm); j = (if i < 0 then n + i else i) in
                  if 0 \<le> j \<and> j < n then
                    Inr (if nat j < length (vdata v) then vdata v ! nat j else vfill v)
                  else Inl IndexError)))))"

text \<open>\<open>int(dset.year)\<close>: the attribute of the variable, which must be a number.\<close>

definition int_attr :: "ncfile \<Rightarrow> ncobj \<Rightarrow> string \<Rightarrow> error + int" where
  "int_attr f obj name =
     (case ncattrs f ((case obj of Grp g \<Rightarrow> g | Var p \<Rightarrow> p), name) of
        None \<Rightarrow> Inl AttributeError
      | Some (ANum n) \<Rightarrow> Inr n
      | Some (AStr x) \<Rightarrow> Inl ValueError
      | Some (AStrs xs) \<Rightarrow> Inl TypeError)"

text \<open>
  The time stamp of \<open>L1Aio.close\<close>: midnight of the date in the attributes of the time
  variable, plus the seconds of entry \<open>i\<close>, in ISO format with milliseconds.
\<close>

definition L1A_tstamp :: "ncfile \<Rightarrow> ncobj \<Rightarrow> int \<Rightarrow> error + string" where
  "L1A_tstamp f dset i =
     bind_err (int_attr f dset ''year'') (\<lambda>y.
     bind_err (int_attr f dset ''month'') (\<lambda>m.
     bind_err (int_attr f dset ''day'') (\<lambda>d.
     bind_err (mk_datetime y m d True) (\<lambda>tstamp.
     bind_err (nc_index f dset i) (\<lambda>c.
     bind_err (timedelta_float_seconds c) (\<lambda>td.
     bind_err (dt_add tstamp td) (\<lambda>t. Inr (isoformat_ms t))))))))"

text \<open>
  The time stamp of \<open>L1Bio.close\<close>:
  \<open>self.epoch + timedelta(seconds=int(secnd)) + timedelta(microseconds=int(secnd % 1))\<close>.
\<close>

definition L1B_time :: "datetime \<Rightarrow> ncfile \<Rightarrow> ncobj \<Rightarrow> int \<Rightarrow> error + datetime" where
  "L1B_time ep f dset i =
     bind_err (nc_index f dset i) (\<lambda>secnd.
     bind_err (timedelta_int_seconds secnd) (\<lambda>td1.
     bind_err (dt_add ep td1) (\<lambda>t.
     bind_err (timedelta_int_frac_microseconds secnd) (\<lambda>td2. dt_add t td2))))"

subsection \<open>L1Aio\<close>

definition L1Aio_dset_stored :: "(string \<times> nat) list" where
  "L1Aio_dset_stored =
     [(''/science_data/detector_images'', 0),
      (''/science_data/detector_telemetry'', 0),
      (''/image_attributes/binning_table'', 0),
      (''/image_attributes/digital_offset'', 0),
      (''/image_attributes/nr_coadditions'', 0),
      (''/image_attributes/exposure_time'', 0),
      (''/image_attributes/icu_time_sec'', 0),
      (''/image_attributes/icu_time_subsec'', 0),
      (''/image_attributes/image_time'', 0),
      (''/image_attributes/image_ID'', 0),
      (''/engineering_data/NomHK_telemetry'', 0),
      (''/engineering_data/temp_detector'', 0),
      (''/engineering_data/temp_housing'', 0),
      (''/engineering_data/temp_radiator'', 0),
      (''/engineering_data/HK_tlm_time'', 0)]"

text \<open>The warning line of \<open>check_stored\<close> for the level \<open>lvl\<close> (\<open>A\<close> or \<open>B\<close>).\<close>

definition warn_str :: "string \<Rightarrow> string \<Rightarrow> nat \<Rightarrow> string" where
  "warn_str lvl key n =
     ''SPEX Level-1'' @ lvl @ '' format check [WARNING]: size of variable ''
     @ [CHR 0x22] @ key @ [CHR 0x22] @ '' is wrong, only '' @ digits n @ '' elements''"

text \<open>
  \<open>indx = bad(res).nonzero()[0]\<close> and
  \<open>for ii in indx: print(warn_str.format(key_list[ii], res[ii]))\<close>.
\<close>

definition size_warnings ::
  "string \<Rightarrow> string list \<Rightarrow> nat list \<Rightarrow> (nat \<Rightarrow> bool) \<Rightarrow> string list" where
  "size_warnings lvl key_list res bad =
     map (\<lambda>ii. warn_str lvl (key_list ! ii) (res ! ii))
       (filter (\<lambda>ii. bad (res ! ii)) [0..<length res])"

text \<open>\<open>L1Aio.check_stored(allow_empty)\<close>.\<close>

definition L1A_check_stored :: "bool \<Rightarrow> state \<Rightarrow> error option \<times> state" where
  "L1A_check_stored allow_empty s =
     (case get_dim ''number_of_images'' s of Inl e \<Rightarrow> (Some e, s)
      | Inr dim_sz \<Rightarrow>
        (let key_list = filter (\<lambda>x. startswith x ''/science_data''
                                  \<or> startswith x ''/image_attributes'')
                          (map fst (dset_stored s));
             res = List.map_filter (map_of (dset_stored s)) key_list;
             s1 = s\<lparr>stdout := stdout s @ size_warnings ''A'' key_list res
                    (\<lambda>r. if allow_empty then r > 0 \<and> r \<noteq> dim_sz else r \<noteq> dim_sz)\<rparr>
         in case get_dim ''hk_packets'' s1 of Inl e \<Rightarrow> (Some e, s1)
            | Inr dim_sz \<Rightarrow>
              (let key_list = filter (\<lambda>x. startswith x ''/engineering_data'')
                                (map fst (dset_stored s1));
                   res = List.map_filter (map_of (dset_stored s1)) key_list
               in (None, s1\<lparr>stdout := stdout s1 @ size_warnings ''A'' key_list res
                     (\<lambda>r. if allow_empty then r > 0 \<and> r \<noteq> dim_sz else r \<noteq> dim_sz)\<rparr>))))"

text \<open>\<open>self.fid.time_coverage_start = value\<close>: a global attribute of the file.\<close>

definition set_global :: "string \<Rightarrow> string \<Rightarrow> ncfile \<Rightarrow> ncfile" where
  "set_global name val f = f\<lparr>ncattrs := (ncattrs f)(([], name) \<mapsto> AStr val)\<rparr>"

text \<open>\<open>L1Aio.close\<close>.\<close>

definition L1A_close :: "state \<Rightarrow> error option \<times> state" where
  "L1A_close s =
     (case fid s of None \<Rightarrow> (None, s)
      | Some f \<Rightarrow>
        (case dimensions f ''number_of_images'' of None \<Rightarrow> (Some KeyError, s)
         | Some d \<Rightarrow>
           if dsize d = 0 then (None, nc_close s)
           else
             (case L1A_check_stored True s of (Some e, s1) \<Rightarrow> (Some e, s1)
              | (None, s1) \<Rightarrow>
                (case nc_getitem f ''/image_attributes/image_time'' of
                   Inl e \<Rightarrow> (Some e, s1)
                 | Inr dset \<Rightarrow>
                   (case L1A_tstamp f dset 0 of Inl e \<Rightarrow> (Some e, s1)
                    | Inr t0 \<Rightarrow>
                      (let f1 = set_global ''time_coverage_start'' t0 f;
                           s2 = s1\<lparr>fid := Some f1\<rparr>
                       in case L1A_tstamp f1 dset (- 1) of Inl e \<Rightarrow> (Some e, s2)
                          | Inr t1 \<Rightarrow>
                              (None, nc_close
                                 (s2\<lparr>fid := Some (set_global ''time_coverage_end'' t1 f1)\<rparr>))))))))"

text \<open>
  The temperature calibration \<open>frac_poly(xx_in, coefs=None)\<close>, element by element on
  \<open>xdata = xx_in.astype(float)\<close>. At 0 the term with \<open>log\<close> is \<open>inf * 0\<close> and for a
  negative count the logarithm is not a number, so the result is finite for positive
  counts only.
\<close>

type_synonym coefs = "real \<times> real \<times> real \<times> real \<times> real"

definition default_coefs :: coefs where
  "default_coefs =
     (273.15 + 21.19, 69782800, - (353275 / 10 ^ 30), 779625 / 10 ^ 36, - (46505 / 10 ^ 36))"

definition frac_poly_elem :: "coefs \<Rightarrow> real \<Rightarrow> cell" where
  "frac_poly_elem cf xdata =
     (case cf of (c0, c1, c2, c3, c4) \<Rightarrow>
        if xdata > 0 then
          CFloat (c0 + c1 / xdata + c2 * xdata ^ 4 + (c3 + c4 * ln xdata) * xdata ^ 5)
        else CNaN)"

definition frac_poly :: "int list \<Rightarrow> coefs option \<Rightarrow> cell list" where
  "frac_poly xx_in cfs =
     (let xdata = map real_of_int xx_in;
          cf = (case cfs of None \<Rightarrow> default_coefs | Some c \<Rightarrow> c)
      in map (frac_poly_elem cf) xdata)"

text \<open>\<open>L1Aio.fill_nomhk(nomhk_data)\<close> for a one-dimensional array of NomHK records.\<close>

definition fill_nomhk :: "nomhk list \<Rightarrow> state \<Rightarrow> error option \<times> state" where
  "fill_nomhk nomhk_data s =
     (if length nomhk_data = 0 then (None, s)
      else
        and_then (set_dset ''/engineering_data/NomHK_telemetry'' (Array (map CRec nomhk_data)) (- 1))
       (and_then
          (if list_all (\<lambda>r. TS1_DEM_N_T r = 0) nomhk_data then
             set_dset ''/engineering_data/temp_detector''
               (Array (replicate (length nomhk_data) (CInt 273))) (- 1)
           else
             set_dset ''/engineering_data/temp_detector''
               (Array (frac_poly (map TS1_DEM_N_T nomhk_data) None)) (- 1))
       (and_then
          (if list_all (\<lambda>r. TS2_HOUSING_N_T r = 0) nomhk_data then
             set_dset ''/engineering_data/temp_housing''
               (Array (replicate (length nomhk_data) (CInt 293))) (- 1)
           else
             set_dset ''/engineering_data/temp_housing''
               (Array (frac_poly (map TS2_HOUSING_N_T nomhk_data) None)) (- 1))
          (if list_all (\<lambda>r. TS3_RADIATOR_N_T r = 0) nomhk_data then
             set_dset ''/engineering_data/temp_radiator''
               (Array (replicate (length nomhk_data) (CInt 294))) (- 1)
           else
             set_dset ''/engineering_data/temp_radiator''
               (Array (frac_poly (map TS3_RADIATOR_N_T nomhk_data) None)) (- 1)))) s)"

text \<open>\<open>L1Aio.fill_demhk(demhk_data)\<close> for a one-dimensional array.\<close>

definition fill_demhk :: "cell list \<Rightarrow> state \<Rightarrow> error option \<times> state" where
  "fill_demhk demhk_data s =
     (if length demhk_data = 0 then (None, s)
      else set_dset ''/engineering_data/DemHK_telemetry'' (Array demhk_data) (- 1) s)"

subsection \<open>L1Bio\<close>

definition L1Bio_dset_stored :: "(string \<times> nat) list" where
  "L1Bio_dset_stored =
     [(''/BIN_ATTRIBUTES/image_time'', 0),
      (''/GEOLOCATION_DATA/altitude'', 0),
      (''/GEOLOCATION_DATA/latitude'', 0),
      (''/GEOLOCATION_DATA/longitude'', 0),
      (''/GEOLOCATION_DATA/sensor_azimuth'', 0),
      (''/GEOLOCATION_DATA/sensor_zenith'', 0),
      (''/GEOLOCATION_DATA/solar_azimuth'', 0),
      (''/GEOLOCATION_DATA/solar_zenith'', 0),
      (''/OBSERVATION_DATA/I'', 0),
      (''/OBSERVATION_DATA/I_noise'', 0),
      (''/OBSERVATION_DATA/AoLP'', 0),
      (''/OBSERVATION_DATA/AoLP_noise'', 0),
      (''/OBSERVATION_DATA/DoLP'', 0),
      (''/OBSERVATION_DATA/DoLP_noise'', 0),
      (''/OBSERVATION_DATA/Q_over_I'', 0),
      (''/OBSERVATION_DATA/Q_over_I_noise'', 0),
      (''/OBSERVATION_DATA/U_over_I'', 0),
      (''/OBSERVATION_DATA/U_over_I_noise'', 0),
      (''/SENSOR_VIEWS_BANDS/viewport_index'', 0),
      (''/SENSOR_VIEWS_BANDS/intensity_wavelengths'', 0),
      (''/SENSOR_VIEWS_BANDS/intensity_bandpasses'', 0),
      (''/SENSOR_VIEWS_BANDS/intensity_F0'', 0),
      (''/SENSOR_VIEWS_BANDS/polarization_wavelengths'', 0),
      (''/SENSOR_VIEWS_BANDS/polarization_bandpasses'', 0),
      (''/SENSOR_VIEWS_BANDS/polarization_F0'', 0),
      (''/SENSOR_VIEWS_BANDS/view_angles'', 0)]"

text \<open>\<open>for ii, key in enumerate(self.dset_stored): print(ii, key, self.dset_stored[key])\<close>.\<close>

fun print_stored :: "nat \<Rightarrow> (string \<times> nat) list \<Rightarrow> string list" where
  "print_stored ii [] = []"
| "print_stored ii ((key, n) # kvs) =
     (digits ii @ '' '' @ key @ '' '' @ digits n) # print_stored (Suc ii) kvs"

text \<open>
  \<open>L1Bio.check_stored()\<close>. In its first part the loop skips \<open>viewport_index\<close> when it
  collects \<open>res\<close> but not in \<open>key_list\<close>, and the warning takes the name from
  \<open>key_list\<close> at the index into \<open>res\<close>.
\<close>

definition L1B_check_stored :: "state \<Rightarrow> error option \<times> state" where
  "L1B_check_stored s =
     (case get_dim ''number_of_views'' s of Inl e \<Rightarrow> (Some e, s)
      | Inr dim_sz \<Rightarrow>
        (let key_list = filter (\<lambda>x. startswith x ''/SENSOR_VIEWS_BANDS'')
                          (map fst (dset_stored s));
             res = List.map_filter (map_of (dset_stored s))
                     (filter (\<lambda>key. key \<noteq> ''/SENSOR_VIEWS_BANDS/viewport_index'') key_list);
             s1 = s\<lparr>stdout := stdout s @ size_warnings ''B'' key_list res (\<lambda>r. r \<noteq> dim_sz)\<rparr>
         in case get_dim ''bins_along_track'' s1 of Inl e \<Rightarrow> (Some e, s1)
            | Inr dim_sz \<Rightarrow>
              (let key_list = filter (\<lambda>x. \<not> startswith x ''/SENSOR_VIEWS_BANDS'')
                                (map fst (dset_stored s1));
                   res = List.map_filter (map_of (dset_stored s1)) key_list;
                   s2 = s1\<lparr>stdout := stdout s1
                          @ size_warnings ''B'' key_list res (\<lambda>r. r \<noteq> dim_sz)\<rparr>
               in (None, s2\<lparr>stdout := stdout s2 @ print_stored 0 (dset_stored s2)\<rparr>))))"

text \<open>\<open>L1Bio.close\<close>.\<close>

definition L1B_close :: "state \<Rightarrow> error option \<times> state" where
  "L1B_close s =
     (case fid s of None \<Rightarrow> (None, s)
      | Some f \<Rightarrow>
        (case dimensions f ''bins_along_track'' of None \<Rightarrow> (Some KeyError, s)
         | Some d \<Rightarrow>
           if dsize d = 0 then (None, nc_close s)
           else
             (case L1B_check_stored s of (Some e, s1) \<Rightarrow> (Some e, s1)
              | (None, s1) \<Rightarrow>
                (case bind_err (nc_getitem f ''/BIN_ATTRIBUTES/image_time'')
                        (\<lambda>dset. L1B_time (epoch s1) f dset 0) of
                   Inl e \<Rightarrow> (Some e, s1)
                 | Inr time0 \<Rightarrow>
                   (case bind_err (nc_getitem f ''/BIN_ATTRIBUTES/image_time'')
                           (\<lambda>dset. L1B_time (epoch s1) f dset (- 1)) of
                      Inl e \<Rightarrow> (Some e, s1)
                    | Inr time1 \<Rightarrow>
                        (None, nc_close
                           (s1\<lparr>fid := Some (set_global ''time_coverage_end'' (isoformat_ms time1)
                                  (set_global ''time_coverage_start'' (isoformat_ms time0) f))\<rparr>)))))))"

subsection \<open>The packet-file loop of spx1\_ccsds2l1a.py\<close>

text \<open>\<open>str.rfind('.')\<close>: the index of the last dot, or -1.\<close>

fun rfind_dot :: "string \<Rightarrow> int" where
  "rfind_dot [] = - 1"
| "rfind_dot (c # cs) =
     (let r = rfind_dot cs in
      if r \<ge> 0 then r + 1 else if c = CHR ''.'' then 0 else - 1)"

text \<open>\<open>Path(flname).suffix\<close>.\<close>

definition path_suffix :: "string \<Rightarrow> string" where
  "path_suffix flname =
     (let name = path_name flname; i = rfind_dot name in
      if 0 < i \<and> i < int (length name) - 1 then drop (nat i) name else [])"

text \<open>
  The body of the loop \<open>for flname in sorted(args.file_list)\<close> in \<open>main\<close>, on the files
  still to be visited, with the packets and the output so far. \<open>CCSDSio.read\<close> is not
  part of the sources and is the parameter \<open>read\<close>; \<open>is_file\<close> tells which paths are
  files.
\<close>

fun read_loop ::
  "(string \<Rightarrow> bool) \<Rightarrow> (string \<Rightarrow> error + 'p list) \<Rightarrow> string list \<Rightarrow> 'p list \<times> string list
   \<Rightarrow> error + 'p list \<times> string list" where
  "read_loop is_file read [] acc = Inr acc"
| "read_loop is_file read (flname # rest) (packet_list, out) =
     (if \<not> is_file flname then Inl FileNotFoundError
      else if path_suffix flname = ''.H'' then
        read_loop is_file read rest (packet_list, out @ [''[INFO]: skip CCSDS header file''])
      else
        (case read flname of Inl e \<Rightarrow> Inl e
         | Inr ps \<Rightarrow> read_loop is_file read rest (packet_list @ ps, out)))"

text \<open>Lines 53 to 63 of \<open>main\<close>: the packets of all files of the command line.\<close>

definition read_packets ::
  "(string \<Rightarrow> bool) \<Rightarrow> (string \<Rightarrow> error + 'p list) \<Rightarrow> string list
   \<Rightarrow> error + 'p list \<times> string list" where
  "read_packets is_file read file_list = read_loop is_file read (sort file_list) ([], [])"

subsection \<open>Notions used in the statements\<close>

text \<open>
  The name is a variable of the file, as \<open>set_dset\<close> resolves it, and the first dimension
  of that variable is unlimited.
\<close>

definition unlimited_var :: "ncfile \<Rightarrow> string \<Rightarrow> bool" where
  "unlimited_var f name =
     (dset_present (Some f) name = None \<and>
      (case nc_getitem f name of
         Inr (Var p) \<Rightarrow>
           (case variables f p of
              Some v \<Rightarrow>
                (case get_dims f (vdims v) of Some (dm # dms) \<Rightarrow> isunlimited dm | _ \<Rightarrow> False)
            | None \<Rightarrow> False)
       | _ \<Rightarrow> False))"

text \<open>
  Two files declare the same schema: the same groups, the same variables with the same
  dimension names, the same dimensions with the same kind (fixed or unlimited). Sizes,
  data and attributes may differ.
\<close>

definition same_schema :: "ncfile \<Rightarrow> ncfile \<Rightarrow> bool" where
  "same_schema f f' =
     (groups f' = groups f \<and>
      (\<forall>p. map_option vdims (variables f' p) = map_option vdims (variables f p)) \<and>
      (\<forall>d. map_option isunlimited (dimensions f' d) = map_option isunlimited (dimensions f d)))"

text \<open>\<open>for value in values: self.set_dset(name, value)\<close>.\<close>

fun set_dset_each :: "string \<Rightarrow> ndarray list \<Rightarrow> state \<Rightarrow> error option \<times> state" where
  "set_dset_each name [] s = (None, s)"
| "set_dset_each name (val # vals) s =
     and_then (set_dset name val (- 1)) (set_dset_each name vals) s"

text \<open>The rows a variable of the open file holds, and a global attribute of a file.\<close>

definition stored_rows :: "state \<Rightarrow> string list \<Rightarrow> cell list" where
  "stored_rows s p =
     (case fid s of None \<Rightarrow> []
      | Some f \<Rightarrow> (case variables f p of None \<Rightarrow> [] | Some v \<Rightarrow> vdata v))"

definition global_attr :: "ncfile option \<Rightarrow> string \<Rightarrow> attrval option" where
  "global_attr fo name = (case fo of None \<Rightarrow> None | Some f \<Rightarrow> ncattrs f ([], name))"

subsection \<open>A small Level-1A product\<close>

text \<open>
  A file with the layout of a Level-1A product, cut down to the variables used below:
  both record dimensions are unlimited and still empty, and the time variable carries
  the reference date 2020-05-15.
\<close>

definition unlim_var :: "string \<Rightarrow> ncvar" where
  "unlim_var d = \<lparr>vdims = [d], vdata = [], vfill = CNaN\<rparr>"

definition L1A_example_file :: ncfile where
  "L1A_example_file =
     \<lparr>dimensions = [''number_of_images'' \<mapsto> \<lparr>dsize = 0, isunlimited = True\<rparr>,
                    ''hk_packets'' \<mapsto> \<lparr>dsize = 0, isunlimited = True\<rparr>],
      groups = {[''science_data''], [''image_attributes''], [''engineering_data'']},
      variables =
        [[''image_attributes'', ''image_time''] \<mapsto> unlim_var ''number_of_images'',
         [''image_attributes'', ''image_ID''] \<mapsto> unlim_var ''number_of_images'',
         [''engineering_data'', ''NomHK_telemetry''] \<mapsto> unlim_var ''hk_packets'',
         [''engineering_data'', ''DemHK_telemetry''] \<mapsto> unlim_var ''hk_packets'',
         [''engineering_data'', ''temp_detector''] \<mapsto> unlim_var ''hk_packets'',
         [''engineering_data'', ''temp_housing''] \<mapsto> unlim_var ''hk_packets'',
         [''engineering_data'', ''temp_radiator''] \<mapsto> unlim_var ''hk_packets''],
      ncattrs =
        [([''image_attributes'', ''image_time''], ''year'') \<mapsto> ANum 2020,
         ([''image_attributes'', ''image_time''], ''month'') \<mapsto> ANum 5,
         ([''image_attributes'', ''image_time''], ''day'') \<mapsto> ANum 15]\<rparr>"

definition example_epoch :: datetime where
  "example_epoch = \<lparr>dt_ordinal = 719163, dt_usec = 0, dt_utc = False\<rparr>"

text \<open>The state right after the product was created by a fresh process.\<close>

definition L1A_example :: state where
  "L1A_example =
     \<lparr>dset_stored = L1Aio_dset_stored, product = ''example_l1a.nc'',
      fid = Some L1A_example_file, epoch = example_epoch, stdout = [], ondisk = None\<rparr>"

text \<open>
  A process in which the class body of \<open>L1Aio\<close> has just been executed and no product
  was created yet, and an \<open>init_l1a\<close> that creates the small product above.
\<close>

definition fresh_process :: state where
  "fresh_process =
     \<lparr>dset_stored = L1Aio_dset_stored, product = [], fid = None, epoch = example_epoch,
      stdout = [], ondisk = None\<rparr>"

definition example_init :: "level \<Rightarrow> string \<Rightarrow> datetime \<Rightarrow> unit \<Rightarrow> ncfile" where
  "example_init lvl prod_name ref_date dims = L1A_example_file"

text \<open>A directory in which every path is a file that holds one packet, its own name.\<close>

definition all_files :: "string \<Rightarrow> bool" where
  "all_files flname = True"

definition example_read :: "string \<Rightarrow> error + string list" where
  "example_read flname = Inr [flname]"

text \<open>
  The first product of a process: created, three rows written to the time variable and
  to \<open>image_ID\<close>, and closed.
\<close>

definition first_product_written :: state where
  "first_product_written =
     snd (set_dset ''/image_attributes/image_ID'' (Array [CInt 7, CInt 8, CInt 9]) (- 1)
       (snd (set_dset ''/image_attributes/image_time''
               (Array [CFloat 0.5, CFloat 1.5, CFloat 2.5]) (- 1)
          (snd (Lv1io_init L1A example_init None ''first.nc'' example_epoch () False
                  fresh_process)))))"

definition first_product_closed :: state where
  "first_product_closed = snd (L1A_close first_product_written)"

text \<open>
  The same product with a fourth row in the time variable only, so that the counter of
  \<open>image_ID\<close> (3) disagrees with the size of \<open>number_of_images\<close> (4).
\<close>

definition mismatch_product :: state where
  "mismatch_product =
     snd (set_dset ''/image_attributes/image_time'' (Array [CFloat 3.5]) (- 1)
            first_product_written)"

text \<open>
  The small product after the rows \<open>tms\<close> were appended to the time variable and the
  rows \<open>ids\<close> to \<open>image_ID\<close>.
\<close>

definition written_file :: "cell list \<Rightarrow> cell list \<Rightarrow> ncfile" where
  "written_file tms ids =
     L1A_example_file
       \<lparr>dimensions := (dimensions L1A_example_file)
          (''number_of_images'' \<mapsto> \<lparr>dsize = length tms, isunlimited = True\<rparr>),
        variables := (variables L1A_example_file)
          ([''image_attributes'', ''image_time''] \<mapsto>
             \<lparr>vdims = [''number_of_images''], vdata = tms, vfill = CNaN\<rparr>,
           [''image_attributes'', ''image_ID''] \<mapsto>
             \<lparr>vdims = [''number_of_images''], vdata = ids, vfill = CNaN\<rparr>)\<rparr>"

subsection \<open>A small Level-1B product\<close>

text \<open>
  A file with the two dimensions that \<open>L1Bio\<close> checks and the time variable, created
  with the reference date 1970-01-01; then one time of 1.5 seconds is written.
\<close>

definition L1B_example_file :: ncfile where
  "L1B_example_file =
     \<lparr>dimensions = [''number_of_views'' \<mapsto> \<lparr>dsize = 5, isunlimited = False\<rparr>,
                    ''bins_along_track'' \<mapsto> \<lparr>dsize = 0, isunlimited = True\<rparr>],
      groups = {[''BIN_ATTRIBUTES'']},
      variables = [[''BIN_ATTRIBUTES'', ''image_time''] \<mapsto> unlim_var ''bins_along_track''],
      ncattrs = Map.empty\<rparr>"

definition L1B_example :: state where
  "L1B_example =
     \<lparr>dset_stored = L1Bio_dset_stored, product = ''example_l1b.nc'',
      fid = Some L1B_example_file, epoch = example_epoch, stdout = [], ondisk = None\<rparr>"

definition L1B_written :: state where
  "L1B_written =
     snd (set_dset ''/BIN_ATTRIBUTES/image_time'' (Array [CFloat 1.5]) (- 1) L1B_example)"

subsection \<open>More states of the small Level-1A product\<close>






text \<open>A directory in which only \<open>a.bin\<close> is a file.\<close>

definition a_only :: "string \<Rightarrow> bool" where
  "a_only flname = (flname = ''a.bin'')"

text \<open>
  A batch of two NomHK records: the detector sensor reads 0 in the first and 5 in the
  second, the housing and radiator sensors read 0 in both.
\<close>

definition mixed_batch :: "nomhk list" where
  "mixed_batch =
     [\<lparr>TS1_DEM_N_T = 0, TS2_HOUSING_N_T = 0, TS3_RADIATOR_N_T = 0, other_fields = []\<rparr>,
      \<lparr>TS1_DEM_N_T = 5, TS2_HOUSING_N_T = 0, TS3_RADIATOR_N_T = 0, other_fields = []\<rparr>]"

section \<open>Properties\<close>

subsection \<open>Writes that keep the schema\<close>

lemma groups_exist_cong:
  "groups f' = groups f \<Longrightarrow> groups_exist f' pre gs = groups_exist f pre gs"
  by (induction gs arbitrary: pre) auto

lemma same_schema_refl: "same_schema f f"
  by (simp add: same_schema_def)

lemma same_schema_trans: "same_schema f g \<Longrightarrow> same_schema g h \<Longrightarrow> same_schema f h"
  unfolding same_schema_def by metis

lemma same_schema_var_None:
  "same_schema f f' \<Longrightarrow> (variables f' p = None) = (variables f p = None)"
  unfolding same_schema_def by (metis map_option_is_None)

lemma same_schema_getitem:
  assumes "same_schema f f'"
  shows "nc_getitem f' p = nc_getitem f p"
proof -
  have g: "groups f' = groups f"
    using assms by (simp add: same_schema_def)
  have ge: "groups_exist f' [] (butlast (path_parts p)) = groups_exist f [] (butlast (path_parts p))"
    by (rule groups_exist_cong [OF g])
  have v: "(variables f' (path_parts p) = None) = (variables f (path_parts p) = None)"
    by (rule same_schema_var_None [OF assms])
  show ?thesis
    unfolding nc_getitem_def Let_def g ge using v by simp
qed

lemma same_schema_present:
  assumes "same_schema f f'"
  shows "dset_present (Some f') name = dset_present (Some f) name"
proof -
  have v: "\<And>q. (variables f' q = None) = (variables f q = None)"
    by (rule same_schema_var_None [OF assms])
  show ?thesis
    by (simp add: dset_present_def Let_def same_schema_getitem [OF assms] v
        split: sum.split ncobj.split)
qed

lemma same_schema_get_dims:
  "same_schema f f' \<Longrightarrow>
   map_option (map isunlimited) (get_dims f' ds) = map_option (map isunlimited) (get_dims f ds)"
proof (induction ds)
  case Nil
  then show ?case by simp
next
  case (Cons d ds)
  from Cons.prems
  have "map_option isunlimited (dimensions f' d) = map_option isunlimited (dimensions f d)"
    by (simp add: same_schema_def)
  with Cons.IH [OF Cons.prems] show ?case
    by (cases "dimensions f d"; cases "dimensions f' d";
        cases "get_dims f ds"; cases "get_dims f' ds") auto
qed

lemma unlimited_varD:
  assumes "unlimited_var f name"
  shows "\<exists>p v dm dms.
    dset_present (Some f) name = None \<and> nc_getitem f name = Inr (Var p) \<and>
    variables f p = Some v \<and> get_dims f (vdims v) = Some (dm # dms) \<and> isunlimited dm"
  using assms
  by (auto simp: unlimited_var_def split: sum.splits ncobj.splits option.splits list.splits)

lemma unlimited_varE:
  assumes "unlimited_var f name"
  obtains p v dm dms where
    "dset_present (Some f) name = None" "nc_getitem f name = Inr (Var p)"
    "variables f p = Some v" "get_dims f (vdims v) = Some (dm # dms)" "isunlimited dm"
  using unlimited_varD [OF assms] by blast

lemma same_schema_unlimited:
  assumes "same_schema f f'" "unlimited_var f name"
  shows "unlimited_var f' name"
proof -
  from assms(2) obtain p v dm dms where
    pr: "dset_present (Some f) name = None" and gi: "nc_getitem f name = Inr (Var p)"
    and vv: "variables f p = Some v" and gd: "get_dims f (vdims v) = Some (dm # dms)"
    and un: "isunlimited dm"
    by (rule unlimited_varE)
  from assms(1) vv obtain v' where vv': "variables f' p = Some v'" and vd: "vdims v' = vdims v"
    unfolding same_schema_def by (metis map_option_eq_Some option.simps(9))
  from same_schema_get_dims [OF assms(1), of "vdims v"] gd
  obtain dm' dms' where gd': "get_dims f' (vdims v) = Some (dm' # dms')"
    and un': "isunlimited dm' = isunlimited dm"
    by (cases "get_dims f' (vdims v)") auto
  show ?thesis
    using pr gi vv' vd gd' un' un same_schema_present [OF assms(1), of name]
      same_schema_getitem [OF assms(1), of name]
    by (simp add: unlimited_var_def)
qed

lemma get_dims_hd:
  "get_dims f ds = Some (dm # dms) \<Longrightarrow> \<exists>d ds'. ds = d # ds' \<and> dimensions f d = Some dm"
  by (cases ds) (auto split: option.splits)

text \<open>
  One call of \<open>set_dset\<close> on a variable with an unlimited first dimension that is a key
  of the table: it returns normally, the data goes to the rows from the start index
  on, and the counter grows by \<open>shape0\<close> of the value.
\<close>

lemma set_dset_unlimited:
  assumes "fid s = Some f" "unlimited_var f name" "map_of (dset_stored s) name = Some n"
  shows "\<exists>p v d dm.
           nc_getitem f name = Inr (Var p) \<and> variables f p = Some v
         \<and> dimensions f d = Some dm \<and> hd (vdims v) = d
         \<and> set_dset name val ibgn s
            = (None, s\<lparr>fid := Some (f\<lparr>dimensions := (dimensions f)
                            (d \<mapsto> dm\<lparr>dsize :=
                                snd (nc_assign_from v (dsize dm) (if ibgn < 0 then n else nat ibgn) val)\<rparr>),
                          variables := (variables f)
                            (p \<mapsto> v\<lparr>vdata :=
                                fst (nc_assign_from v (dsize dm) (if ibgn < 0 then n else nat ibgn) val)\<rparr>)\<rparr>),
                      dset_stored := AList.update name (n + shape0 val) (dset_stored s)\<rparr>)"
proof -
  from assms(2) obtain p v dm dms where
    pr: "dset_present (Some f) name = None" and gi: "nc_getitem f name = Inr (Var p)"
    and vv: "variables f p = Some v" and gd: "get_dims f (vdims v) = Some (dm # dms)"
    and un: "isunlimited dm"
    by (rule unlimited_varE)
  from get_dims_hd [OF gd] obtain d ds' where vd: "vdims v = d # ds'"
    and dd: "dimensions f d = Some dm"
    by blast
  let ?i = "if ibgn < 0 then n else nat ibgn"
  let ?f' = "f\<lparr>dimensions := (dimensions f)
                 (d \<mapsto> dm\<lparr>dsize := snd (nc_assign_from v (dsize dm) ?i val)\<rparr>),
               variables := (variables f)
                 (p \<mapsto> v\<lparr>vdata := fst (nc_assign_from v (dsize dm) ?i val)\<rparr>)\<rparr>"
  have sv: "store_value f p v (dm # dms) (Some n) val ibgn = Inr ?f'"
    using un vd by (simp add: store_value_def split_beta)
  have "set_dset name val ibgn s
      = (None, s\<lparr>fid := Some ?f',
                  dset_stored := AList.update name (n + shape0 val) (dset_stored s)\<rparr>)"
    using assms(1,3) pr gi vv gd sv by (simp add: set_dset_def bump_stored_def)
  with gi vv dd vd show ?thesis
    by (intro exI [of _ p] exI [of _ v] exI [of _ d] exI [of _ dm]) simp
qed

lemma set_dset_unlimited_schema:
  assumes "fid s = Some f" "unlimited_var f name" "map_of (dset_stored s) name = Some n"
  shows "\<exists>f'. set_dset name val ibgn s
            = (None, s\<lparr>fid := Some f',
                        dset_stored := AList.update name (n + shape0 val) (dset_stored s)\<rparr>)
          \<and> same_schema f f'"
proof -
  from set_dset_unlimited [OF assms, of val ibgn] obtain p v d dm f' where
    vv: "variables f p = Some v" and dd: "dimensions f d = Some dm"
    and f': "f' = f\<lparr>dimensions := (dimensions f)
                 (d \<mapsto> dm\<lparr>dsize :=
                     snd (nc_assign_from v (dsize dm) (if ibgn < 0 then n else nat ibgn) val)\<rparr>),
               variables := (variables f)
                 (p \<mapsto> v\<lparr>vdata :=
                     fst (nc_assign_from v (dsize dm) (if ibgn < 0 then n else nat ibgn) val)\<rparr>)\<rparr>"
    and st: "set_dset name val ibgn s
            = (None, s\<lparr>fid := Some f',
                        dset_stored := AList.update name (n + shape0 val) (dset_stored s)\<rparr>)"
    by blast
  have "same_schema f f'"
    using vv dd unfolding f' by (auto simp: same_schema_def)
  with st show ?thesis by blast
qed

lemma set_dset_each_unlimited:
  assumes "fid s = Some f" "unlimited_var f name" "map_of (dset_stored s) name = Some n"
  shows "\<exists>f'. set_dset_each name vals s
            = (None, s\<lparr>fid := Some f',
                        dset_stored := AList.update name (n + sum_list (map shape0 vals))
                                         (dset_stored s)\<rparr>)
          \<and> same_schema f f'"
  using assms
proof (induction vals arbitrary: s f n)
  case Nil
  have "s\<lparr>fid := Some f, dset_stored := AList.update name n (dset_stored s)\<rparr> = s"
    using Nil by (simp add: AList.update_triv)
  then show ?case
    using same_schema_refl [of f] by (intro exI [of _ f]) simp
next
  case (Cons val vals)
  from set_dset_unlimited_schema [OF Cons.prems, of val "- 1"] obtain f1 where
    st: "set_dset name val (- 1) s
           = (None, s\<lparr>fid := Some f1,
                       dset_stored := AList.update name (n + shape0 val) (dset_stored s)\<rparr>)"
    and ss: "same_schema f f1" by blast
  let ?s1 = "s\<lparr>fid := Some f1,
               dset_stored := AList.update name (n + shape0 val) (dset_stored s)\<rparr>"
  have a: "fid ?s1 = Some f1" by simp
  have b: "unlimited_var f1 name" using same_schema_unlimited [OF ss Cons.prems(2)] .
  have c: "map_of (dset_stored ?s1) name = Some (n + shape0 val)"
    by (simp add: AList.update_conv')
  from Cons.IH [OF a b c] obtain f2 where
    r: "set_dset_each name vals ?s1
         = (None, ?s1\<lparr>fid := Some f2,
               dset_stored := AList.update name (n + shape0 val + sum_list (map shape0 vals))
                                (dset_stored ?s1)\<rparr>)"
    and ss2: "same_schema f1 f2" by blast
  have "set_dset_each name (val # vals) s
      = (None, s\<lparr>fid := Some f2,
                  dset_stored := AList.update name (n + sum_list (map shape0 (val # vals)))
                                   (dset_stored s)\<rparr>)"
    using st r by (simp add: and_then_def add.assoc)
  with same_schema_trans [OF ss ss2] show ?case by blast
qed

lemma sum_shape0_rows: "sum_list (map shape0 (map (\<lambda>r. Array [r]) rows)) = length rows"
  by (induction rows) auto

lemma example_image_ID_unlimited:
  "unlimited_var L1A_example_file ''/image_attributes/image_ID''"
  by (simp add: unlimited_var_def dset_present_def nc_getitem_def path_parent_def path_name_def
      path_parts_def path_root_def L1A_example_file_def unlim_var_def Let_def)

subsection \<open>The stored-length counter\<close>

text \<open>
  Claim C1. For a variable with an unlimited first dimension that is a key of the
  stored-length table: writing the rows one by one, each with its own call of
  \<open>set_dset\<close>, and writing them with a single call both return normally and leave the
  same table, in which the counter of the variable has grown by the number of rows.
  Any single call adds the number of rows of its value to the counter, which is 1 for
  a 0-dimensional value.
\<close>

theorem set_dset_rowwise_equals_bulk:
  assumes "fid s = Some f" and "unlimited_var f name"
    and "map_of (dset_stored s) name = Some n"
  shows "fst (set_dset_each name (map (\<lambda>r. Array [r]) rows) s) = None
       \<and> fst (set_dset name (Array rows) (- 1) s) = None
       \<and> dset_stored (snd (set_dset_each name (map (\<lambda>r. Array [r]) rows) s))
         = dset_stored (snd (set_dset name (Array rows) (- 1) s))
       \<and> map_of (dset_stored (snd (set_dset name (Array rows) (- 1) s))) name
         = Some (n + length rows)
       \<and> fst (set_dset name val ibgn s) = None
       \<and> map_of (dset_stored (snd (set_dset name val ibgn s))) name = Some (n + shape0 val)
       \<and> shape0 (Scalar c) = 1"
proof -
  from set_dset_each_unlimited [OF assms, of "map (\<lambda>r. Array [r]) rows"]
  obtain f1 where
    e: "set_dset_each name (map (\<lambda>r. Array [r]) rows) s
          = (None, s\<lparr>fid := Some f1,
                      dset_stored := AList.update name (n + length rows) (dset_stored s)\<rparr>)"
    unfolding sum_shape0_rows by blast
  from set_dset_unlimited_schema [OF assms, of "Array rows" "- 1"]
  obtain f2 where
    b: "set_dset name (Array rows) (- 1) s
          = (None, s\<lparr>fid := Some f2,
                      dset_stored := AList.update name (n + length rows) (dset_stored s)\<rparr>)"
    by auto
  from set_dset_unlimited_schema [OF assms, of val ibgn]
  obtain f3 where
    c: "set_dset name val ibgn s
          = (None, s\<lparr>fid := Some f3,
                      dset_stored := AList.update name (n + shape0 val) (dset_stored s)\<rparr>)"
    by auto
  show ?thesis
    by (simp add: e b c AList.update_conv')
qed

theorem set_dset_rowwise_equals_bulk_witness:
  "fid L1A_example = Some L1A_example_file
   \<and> unlimited_var L1A_example_file ''/image_attributes/image_ID''
   \<and> map_of (dset_stored L1A_example) ''/image_attributes/image_ID'' = Some 0
   \<and> fst (set_dset_each ''/image_attributes/image_ID''
            [Array [CInt 7], Array [CInt 8], Array [CInt 9]] L1A_example) = None
   \<and> dset_stored (snd (set_dset_each ''/image_attributes/image_ID''
            [Array [CInt 7], Array [CInt 8], Array [CInt 9]] L1A_example))
     = dset_stored (snd (set_dset ''/image_attributes/image_ID''
            (Array [CInt 7, CInt 8, CInt 9]) (- 1) L1A_example))
   \<and> map_of (dset_stored (snd (set_dset ''/image_attributes/image_ID''
            (Array [CInt 7, CInt 8, CInt 9]) (- 1) L1A_example))) ''/image_attributes/image_ID''
     = Some 3
   \<and> map_of (dset_stored (snd (set_dset ''/image_attributes/image_ID''
            (Scalar (CInt 7)) (- 1) L1A_example))) ''/image_attributes/image_ID''
     = Some 1"
proof -
  have h1: "fid L1A_example = Some L1A_example_file"
    by (simp add: L1A_example_def)
  have h3: "map_of (dset_stored L1A_example) ''/image_attributes/image_ID'' = Some 0"
    by (simp add: L1A_example_def L1Aio_dset_stored_def)
  have c: "map (\<lambda>r. Array [r]) [CInt 7, CInt 8, CInt 9]
             = [Array [CInt 7], Array [CInt 8], Array [CInt 9]]"
    by simp
  have n: "(0::nat) + length [CInt 7, CInt 8, CInt 9] = 3" "(0::nat) + shape0 (Scalar (CInt 7)) = 1"
    by simp_all
  from set_dset_rowwise_equals_bulk [OF h1 example_image_ID_unlimited h3,
        of "[CInt 7, CInt 8, CInt 9]" "Scalar (CInt 7)" "- 1"]
  show ?thesis
    unfolding c n using h1 h3 example_image_ID_unlimited by blast
qed

subsection \<open>Closing a product\<close>

lemma L1A_close_releases: "fst (L1A_close s) = None \<Longrightarrow> fid (snd (L1A_close s)) = None"
  by (auto simp: L1A_close_def nc_close_def Let_def
      split: option.splits if_splits prod.splits sum.splits)

lemma L1B_close_releases: "fst (L1B_close s) = None \<Longrightarrow> fid (snd (L1B_close s)) = None"
  by (auto simp: L1B_close_def nc_close_def Let_def
      split: option.splits if_splits prod.splits sum.splits)

lemma Lv1io_close_releases: "fid (snd (Lv1io_close s)) = None"
  by (auto simp: Lv1io_close_def nc_close_def split: option.splits)

lemma set_dset_closed:
  "fid s = None \<Longrightarrow>
   set_dset name val ibgn s
     = (Some (if path_parent name \<noteq> ''.'' then TypeError else AttributeError), s)"
  by (simp add: set_dset_def dset_present_def Let_def)

lemma set_attr_closed:
  "fid s = None \<Longrightarrow>
   set_attr aname aval ds_name s
     = (Some (case ds_name of None \<Rightarrow> AttributeError
              | Some ds \<Rightarrow> if path_parent ds \<noteq> ''.'' then TypeError else AttributeError), s)"
  by (simp add: set_attr_def Let_def split: option.splits)

text \<open>
  Claim C5, as the code has it. After a close that returned normally the file handle is
  released, and from then on every \<open>set_dset\<close> and every \<open>set_attr\<close> raises and leaves
  the state as it was. The exception is the TypeError or AttributeError of using the
  released handle \<open>None\<close>: a TypeError when the name has a group part (the handle is
  subscripted), an AttributeError otherwise.
\<close>

theorem writes_after_close_raise:
  assumes "L1A_close s0 = (None, s) \<or> L1B_close s0 = (None, s) \<or> Lv1io_close s0 = (None, s)"
  shows "fid s = None
       \<and> set_dset name val ibgn s
           = (Some (if path_parent name \<noteq> ''.'' then TypeError else AttributeError), s)
       \<and> set_attr aname aval ds_name s
           = (Some (case ds_name of None \<Rightarrow> AttributeError
                    | Some ds \<Rightarrow> if path_parent ds \<noteq> ''.'' then TypeError
                                else AttributeError), s)"
proof -
  have "fid s = None"
    using assms L1A_close_releases [of s0] L1B_close_releases [of s0] Lv1io_close_releases [of s0]
    by auto
  then show ?thesis
    by (simp add: set_dset_closed set_attr_closed)
qed

lemma example_close: "L1A_close L1A_example
   = (None, L1A_example\<lparr>fid := None, ondisk := Some L1A_example_file\<rparr>)"
  by (simp add: L1A_close_def L1A_example_def L1A_example_file_def nc_close_def)

text \<open>
  The theorem at the small product: after its close, a write of \<open>image_ID\<close> raises
  TypeError and a global attribute raises AttributeError.
\<close>

theorem writes_after_close_raise_witness:
  "L1A_close L1A_example = (None, L1A_example\<lparr>fid := None, ondisk := Some L1A_example_file\<rparr>)
   \<and> set_dset ''/image_attributes/image_ID'' (Scalar (CInt 1)) (- 1)
        (L1A_example\<lparr>fid := None, ondisk := Some L1A_example_file\<rparr>)
      = (Some TypeError, L1A_example\<lparr>fid := None, ondisk := Some L1A_example_file\<rparr>)
   \<and> set_attr ''orbit'' (ANum 1) None
        (L1A_example\<lparr>fid := None, ondisk := Some L1A_example_file\<rparr>)
      = (Some AttributeError, L1A_example\<lparr>fid := None, ondisk := Some L1A_example_file\<rparr>)"
proof -
  have p: "path_parent ''/image_attributes/image_ID'' \<noteq> ''.''"
    by (simp add: path_parent_def path_parts_def path_root_def Let_def)
  from writes_after_close_raise [of L1A_example
      "L1A_example\<lparr>fid := None, ondisk := Some L1A_example_file\<rparr>"
      "''/image_attributes/image_ID''" "Scalar (CInt 1)" "- 1" "''orbit''" "ANum 1" None]
    example_close p
  show ?thesis by simp
qed

text \<open>
  Claim C5 as stated fails: the exception of a write after close is a TypeError, not a
  ClosedProductError.
\<close>

theorem write_after_close_not_ClosedProductError:
  "fst (set_dset ''/image_attributes/image_ID'' (Scalar (CInt 1)) (- 1)
         (snd (L1A_close L1A_example))) = Some TypeError
   \<and> fst (set_dset ''/image_attributes/image_ID'' (Scalar (CInt 1)) (- 1)
         (snd (L1A_close L1A_example))) \<noteq> Some ClosedProductError"
proof -
  have p: "path_parent ''/image_attributes/image_ID'' \<noteq> ''.''"
    by (simp add: path_parent_def path_parts_def path_root_def Let_def)
  show ?thesis
    by (simp add: example_close set_dset_closed p)
qed

text \<open>
  Claim C6. \<open>close\<close> on a closed product returns without any effect, for \<open>L1Aio\<close> and for
  the base class, so a second close after one that returned normally changes nothing.
  When the dimension \<open>number_of_images\<close> still has size 0, \<open>L1Aio.close\<close> releases the file
  exactly as it is (no attribute is written, nothing is printed) and returns normally.
\<close>

theorem close_noop_when_closed_or_empty:
  "(fid s = None \<longrightarrow> L1A_close s = (None, s) \<and> Lv1io_close s = (None, s))
   \<and> (fst (L1A_close s) = None \<longrightarrow> L1A_close (snd (L1A_close s)) = (None, snd (L1A_close s)))
   \<and> (fst (Lv1io_close s) = None \<longrightarrow>
        Lv1io_close (snd (Lv1io_close s)) = (None, snd (Lv1io_close s)))
   \<and> (fid s = Some f \<and> dimensions f ''number_of_images'' = Some d \<and> dsize d = 0 \<longrightarrow>
        L1A_close s = (None, s\<lparr>fid := None, ondisk := Some f\<rparr>))
   \<and> (fid s = Some f \<longrightarrow> Lv1io_close s = (None, s\<lparr>fid := None, ondisk := Some f\<rparr>))"
proof -
  have a: "\<And>t. fid t = None \<Longrightarrow> L1A_close t = (None, t) \<and> Lv1io_close t = (None, t)"
    by (simp add: L1A_close_def Lv1io_close_def)
  show ?thesis
    using a [of s] a [OF L1A_close_releases, of s] a [OF Lv1io_close_releases, of s]
    by (auto simp: L1A_close_def Lv1io_close_def nc_close_def)
qed

text \<open>
  The theorem at the small product, which is still empty, and at the state after its
  close.
\<close>

theorem close_noop_when_closed_or_empty_witness:
  "fid L1A_example = Some L1A_example_file
   \<and> dimensions L1A_example_file ''number_of_images'' = Some \<lparr>dsize = 0, isunlimited = True\<rparr>
   \<and> L1A_close L1A_example = (None, L1A_example\<lparr>fid := None, ondisk := Some L1A_example_file\<rparr>)
   \<and> fid (L1A_example\<lparr>fid := None, ondisk := Some L1A_example_file\<rparr>) = None
   \<and> L1A_close (L1A_example\<lparr>fid := None, ondisk := Some L1A_example_file\<rparr>)
      = (None, L1A_example\<lparr>fid := None, ondisk := Some L1A_example_file\<rparr>)
   \<and> global_attr (ondisk (snd (L1A_close L1A_example))) ''time_coverage_start'' = None"
proof -
  have h1: "fid L1A_example = Some L1A_example_file"
    by (simp add: L1A_example_def)
  have h2: "dimensions L1A_example_file ''number_of_images''
              = Some \<lparr>dsize = 0, isunlimited = True\<rparr>"
    by (simp add: L1A_example_file_def)
  have h3: "global_attr (Some L1A_example_file) ''time_coverage_start'' = None"
    by (simp add: global_attr_def L1A_example_file_def)
  from close_noop_when_closed_or_empty [of L1A_example L1A_example_file
      "\<lparr>dsize = 0, isunlimited = True\<rparr>"]
    close_noop_when_closed_or_empty [of "L1A_example\<lparr>fid := None, ondisk := Some L1A_example_file\<rparr>"]
    h1 h2 h3
  show ?thesis by simp
qed

subsection \<open>The temperature calibration\<close>

text \<open>
  Claim C7. Without coefficients, \<open>frac_poly\<close> maps every positive count \<open>x\<close> of its
  argument to \<open>r0 + r1/x + r2*x^4 + (r3 + r4*log(x))*x^5\<close> with r0 = 273.15 + 21.19,
  r1 = 6.97828e+7, r2 = -3.53275e-25, r3 = 7.79625e-31 and r4 = -4.6505e-32 (over the
  real numbers).
\<close>

theorem frac_poly_default_coefficients:
  assumes "\<forall>x\<in>set xx_in. 0 < x"
  shows "frac_poly xx_in None
         = map (\<lambda>x. CFloat ((273.15 + 21.19) + 69782800 / real_of_int x
                        + (- (353275 / 10 ^ 30)) * real_of_int x ^ 4
                        + (779625 / 10 ^ 36 + (- (46505 / 10 ^ 36)) * ln (real_of_int x))
                          * real_of_int x ^ 5)) xx_in"
  using assms by (simp add: frac_poly_def frac_poly_elem_def default_coefs_def)

text \<open>
  The theorem at the count 1, where the logarithm vanishes.
\<close>

theorem frac_poly_default_coefficients_witness:
  "0 < (1::int)
   \<and> frac_poly [1] None
     = [CFloat ((273.15 + 21.19) + 69782800 + (- (353275 / 10 ^ 30)) + 779625 / 10 ^ 36)]"
  using frac_poly_default_coefficients [of "[1]"] by simp

subsection \<open>A name that is not a key of the table\<close>

lemma set_dset_unregistered_raises:
  "map_of (dset_stored s) name = None \<Longrightarrow> fst (set_dset name val ibgn s) \<noteq> None"
  by (simp add: set_dset_def bump_stored_def
      split: option.split sum.split ncobj.split)

lemma store_value_unlimited_default:
  "isunlimited d \<Longrightarrow> ibgn < 0 \<Longrightarrow> store_value f p v (d # ds) None val ibgn = Inl KeyError"
  by (simp add: store_value_def)

text \<open>
  Claim C10, as the code has it. When the name is not a key of the stored-length table,
  \<open>set_dset\<close> always raises. For a variable of the file whose first dimension is
  unlimited and with the default (negative) start index, the KeyError comes from reading
  the start index \<open>self.dset_stored[name]\<close>, before anything is stored: the state is
  unchanged. In the other cases (no dimension, a fixed first dimension, or a start index
  given by the caller) a value that the variable accepts is stored first and the update
  of the counter then raises KeyError, so the file has changed. \<open>fill_demhk\<close> with
  data always raises, since \<open>/engineering_data/DemHK_telemetry\<close> is not a key of the table
  of \<open>L1Aio\<close>.
\<close>

theorem set_dset_unregistered_name:
  assumes "map_of (dset_stored s) name = None"
  shows "fst (set_dset name val ibgn s) \<noteq> None
       \<and> (fid s = Some f \<and> dset_present (Some f) name = None \<and> nc_getitem f name = Inr (Var p)
          \<and> variables f p = Some v \<and> get_dims f (vdims v) = Some (d # ds)
          \<and> isunlimited d \<and> ibgn < 0
          \<longrightarrow> set_dset name val ibgn s = (Some KeyError, s))
       \<and> (fid s = Some f \<and> dset_present (Some f) name = None \<and> nc_getitem f name = Inr (Var p)
          \<and> variables f p = Some v \<and> get_dims f (vdims v) = Some dims
          \<and> store_value f p v dims None val ibgn = Inr f'
          \<longrightarrow> set_dset name val ibgn s = (Some KeyError, s\<lparr>fid := Some f'\<rparr>))
       \<and> (name = ''/engineering_data/DemHK_telemetry'' \<and> demhk_data \<noteq> []
          \<longrightarrow> fst (fill_demhk demhk_data s) \<noteq> None)
       \<and> map_of L1Aio_dset_stored ''/engineering_data/DemHK_telemetry'' = None"
proof -
  have a: "fst (set_dset name val ibgn s) \<noteq> None"
    by (rule set_dset_unregistered_raises [OF assms])
  have b: "set_dset name val ibgn s = (Some KeyError, s)"
    if "fid s = Some f" "dset_present (Some f) name = None" "nc_getitem f name = Inr (Var p)"
      "variables f p = Some v" "get_dims f (vdims v) = Some (d # ds)" "isunlimited d" "ibgn < 0"
    using that assms by (simp add: set_dset_def store_value_unlimited_default)
  have c: "set_dset name val ibgn s = (Some KeyError, s\<lparr>fid := Some f'\<rparr>)"
    if "fid s = Some f" "dset_present (Some f) name = None" "nc_getitem f name = Inr (Var p)"
      "variables f p = Some v" "get_dims f (vdims v) = Some dims"
      "store_value f p v dims None val ibgn = Inr f'"
    using that assms by (simp add: set_dset_def bump_stored_def)
  have d: "fst (fill_demhk demhk_data s) \<noteq> None"
    if "name = ''/engineering_data/DemHK_telemetry''" "demhk_data \<noteq> []"
    using that set_dset_unregistered_raises [OF assms, of "Array demhk_data" "- 1"]
    by (simp add: fill_demhk_def)
  have e: "map_of L1Aio_dset_stored ''/engineering_data/DemHK_telemetry'' = None"
    by (simp add: L1Aio_dset_stored_def)
  from a b c d e show ?thesis by blast
qed

lemma example_DemHK:
  "dset_present (Some L1A_example_file) ''/engineering_data/DemHK_telemetry'' = None"
  "nc_getitem L1A_example_file ''/engineering_data/DemHK_telemetry''
     = Inr (Var [''engineering_data'', ''DemHK_telemetry''])"
  "variables L1A_example_file [''engineering_data'', ''DemHK_telemetry'']
     = Some (unlim_var ''hk_packets'')"
  "get_dims L1A_example_file (vdims (unlim_var ''hk_packets''))
     = Some [\<lparr>dsize = 0, isunlimited = True\<rparr>]"
  by (simp_all add: dset_present_def nc_getitem_def path_parent_def path_name_def
      path_parts_def path_root_def L1A_example_file_def unlim_var_def Let_def)

text \<open>
  The theorem at the small product and the variable \<open>DemHK_telemetry\<close>: with the default
  start index nothing is stored, with the start index 0 the row is stored before the
  KeyError.
\<close>

theorem set_dset_unregistered_name_witness:
  "map_of (dset_stored L1A_example) ''/engineering_data/DemHK_telemetry'' = None
   \<and> isunlimited \<lparr>dsize = 0, isunlimited = True\<rparr> \<and> (- 1 :: int) < 0
   \<and> set_dset ''/engineering_data/DemHK_telemetry'' (Array [CInt 5]) (- 1) L1A_example
      = (Some KeyError, L1A_example)
   \<and> store_value L1A_example_file [''engineering_data'', ''DemHK_telemetry'']
        (unlim_var ''hk_packets'') [\<lparr>dsize = 0, isunlimited = True\<rparr>] None (Array [CInt 5]) 0
      = Inr (L1A_example_file
          \<lparr>dimensions := (dimensions L1A_example_file)
             (''hk_packets'' \<mapsto> \<lparr>dsize = 1, isunlimited = True\<rparr>),
           variables := (variables L1A_example_file)
             ([''engineering_data'', ''DemHK_telemetry'']
                \<mapsto> \<lparr>vdims = [''hk_packets''], vdata = [CInt 5], vfill = CNaN\<rparr>)\<rparr>)
   \<and> set_dset ''/engineering_data/DemHK_telemetry'' (Array [CInt 5]) 0 L1A_example
      = (Some KeyError, L1A_example\<lparr>fid := Some (L1A_example_file
          \<lparr>dimensions := (dimensions L1A_example_file)
             (''hk_packets'' \<mapsto> \<lparr>dsize = 1, isunlimited = True\<rparr>),
           variables := (variables L1A_example_file)
             ([''engineering_data'', ''DemHK_telemetry'']
                \<mapsto> \<lparr>vdims = [''hk_packets''], vdata = [CInt 5], vfill = CNaN\<rparr>)\<rparr>)\<rparr>)
   \<and> fst (fill_demhk [CInt 5] L1A_example) \<noteq> None"
proof -
  have h0: "map_of (dset_stored L1A_example) ''/engineering_data/DemHK_telemetry'' = None"
    by (simp add: L1A_example_def L1Aio_dset_stored_def)
  have h1: "fid L1A_example = Some L1A_example_file"
    by (simp add: L1A_example_def)
  have h2: "store_value L1A_example_file [''engineering_data'', ''DemHK_telemetry'']
        (unlim_var ''hk_packets'') [\<lparr>dsize = 0, isunlimited = True\<rparr>] None (Array [CInt 5]) 0
      = Inr (L1A_example_file
          \<lparr>dimensions := (dimensions L1A_example_file)
             (''hk_packets'' \<mapsto> \<lparr>dsize = 1, isunlimited = True\<rparr>),
           variables := (variables L1A_example_file)
             ([''engineering_data'', ''DemHK_telemetry'']
                \<mapsto> \<lparr>vdims = [''hk_packets''], vdata = [CInt 5], vfill = CNaN\<rparr>)\<rparr>)"
    by (simp add: store_value_def unlim_var_def nc_put_def)
  from set_dset_unregistered_name [OF h0, of "Array [CInt 5]" "- 1" L1A_example_file
      "[''engineering_data'', ''DemHK_telemetry'']" "unlim_var ''hk_packets''"
      "\<lparr>dsize = 0, isunlimited = True\<rparr>" "[]" "[\<lparr>dsize = 0, isunlimited = True\<rparr>]" _ "[CInt 5]"]
    set_dset_unregistered_name [OF h0, of "Array [CInt 5]" 0 L1A_example_file
      "[''engineering_data'', ''DemHK_telemetry'']" "unlim_var ''hk_packets''"
      "\<lparr>dsize = 0, isunlimited = True\<rparr>" "[]" "[\<lparr>dsize = 0, isunlimited = True\<rparr>]" _ "[CInt 5]"]
    h0 h1 h2 example_DemHK
  show ?thesis by simp
qed

text \<open>
  Claim C10 as stated fails: on the small product, where \<open>DemHK_telemetry\<close> has the
  unlimited dimension \<open>hk_packets\<close>, \<open>fill_demhk\<close> raises KeyError and the state is
  unchanged, so nothing was stored before the error.
\<close>

theorem fill_demhk_raises_before_storing:
  "fill_demhk [CInt 5] L1A_example = (Some KeyError, L1A_example)"
proof -
  have h0: "map_of (dset_stored L1A_example) ''/engineering_data/DemHK_telemetry'' = None"
    by (simp add: L1A_example_def L1Aio_dset_stored_def)
  have h1: "fid L1A_example = Some L1A_example_file"
    by (simp add: L1A_example_def)
  show ?thesis
    using h0 h1 example_DemHK
    by (simp add: fill_demhk_def set_dset_def store_value_unlimited_default)
qed

subsection \<open>The size check and the time coverage of \<open>L1Aio.close\<close>\<close>

lemma nth_filter_map:
  "map (\<lambda>i. g (xs ! i)) (filter (\<lambda>i. Q (xs ! i)) [0..<length xs]) = map g (filter Q xs)"
proof (induction xs rule: rev_induct)
  case Nil
  then show ?case by simp
next
  case (snoc x xs)
  have a: "filter (\<lambda>i. Q ((xs @ [x]) ! i)) [0..<length xs]
           = filter (\<lambda>i. Q (xs ! i)) [0..<length xs]"
    by (rule filter_cong) (auto simp: nth_append)
  have b: "map (\<lambda>i. g ((xs @ [x]) ! i)) (filter (\<lambda>i. Q (xs ! i)) [0..<length xs])
           = map (\<lambda>i. g (xs ! i)) (filter (\<lambda>i. Q (xs ! i)) [0..<length xs])"
    by (rule map_cong) (auto simp: nth_append)
  show ?case
    using snoc.IH by (simp add: a b)
qed

lemma size_warnings_pairs:
  "size_warnings lvl (map fst xs) (map snd xs) bad
   = map (\<lambda>(k, n). warn_str lvl k n) (filter (\<lambda>(k, n). bad n) xs)"
proof -
  have "size_warnings lvl (map fst xs) (map snd xs) bad
        = map (\<lambda>i. (\<lambda>(k, n). warn_str lvl k n) (xs ! i))
            (filter (\<lambda>i. (\<lambda>(k, n). bad n) (xs ! i)) [0..<length xs])"
    unfolding size_warnings_def
    by (intro map_cong filter_cong) (auto simp: case_prod_beta)
  then show ?thesis
    by (simp only: nth_filter_map)
qed

lemma map_filter_fst:
  "(\<forall>kv\<in>set ys. m (fst kv) = Some (snd kv)) \<Longrightarrow>
   List.map_filter m (map fst ys) = map snd ys"
  by (induction ys) auto

lemma stored_of_keys:
  assumes "distinct (map fst tab)"
  shows "List.map_filter (map_of tab) (filter P (map fst tab))
         = map snd (filter (\<lambda>(k, n). P k) tab)"
proof -
  have f: "filter P (map fst tab) = map fst (filter (\<lambda>(k, n). P k) tab)"
    by (induction tab) auto
  have "\<forall>kv\<in>set (filter (\<lambda>(k, n). P k) tab). map_of tab (fst kv) = Some (snd kv)"
    using assms by auto
  then show ?thesis
    unfolding f by (rule map_filter_fst)
qed

lemma keys_filter:
  "filter P (map fst tab) = map fst (filter (\<lambda>(k, n). P k) tab)"
  by (induction tab) auto

lemma checked_warnings:
  assumes "distinct (map fst tab)"
  shows "size_warnings lvl (filter P (map fst tab))
           (List.map_filter (map_of tab) (filter P (map fst tab))) bad
         = map (\<lambda>(k, n). warn_str lvl k n) (filter (\<lambda>(k, n). P k \<and> bad n) tab)"
proof -
  have "size_warnings lvl (filter P (map fst tab))
           (List.map_filter (map_of tab) (filter P (map fst tab))) bad
        = map (\<lambda>(k, n). warn_str lvl k n)
            (filter (\<lambda>(k, n). bad n) (filter (\<lambda>(k, n). P k) tab))"
    unfolding stored_of_keys [OF assms] unfolding keys_filter by (rule size_warnings_pairs)
  also have "filter (\<lambda>(k, n). bad n) (filter (\<lambda>(k, n). P k) tab)
             = filter (\<lambda>(k, n). P k \<and> bad n) tab"
    by (induction tab) auto
  finally show ?thesis .
qed

lemma L1A_check_stored_ok:
  assumes "fid s = Some f" "dimensions f ''number_of_images'' = Some d"
    "dimensions f ''hk_packets'' = Some dh" "distinct (map fst (dset_stored s))"
  shows "L1A_check_stored True s
   = (None, s\<lparr>stdout := stdout s
        @ map (\<lambda>(k, n). warn_str ''A'' k n)
            (filter (\<lambda>(k, n). (startswith k ''/science_data''
                                \<or> startswith k ''/image_attributes'')
                               \<and> (0 < n \<and> n \<noteq> dsize d)) (dset_stored s))
        @ map (\<lambda>(k, n). warn_str ''A'' k n)
            (filter (\<lambda>(k, n). startswith k ''/engineering_data''
                               \<and> (0 < n \<and> n \<noteq> dsize dh)) (dset_stored s))\<rparr>)"
  using assms(1-3)
  by (simp add: L1A_check_stored_def get_dim_def Let_def checked_warnings [OF assms(4)])

lemma nc_getitem_path: "nc_getitem f name = Inr obj \<Longrightarrow>
   (case obj of Grp g \<Rightarrow> g | Var p \<Rightarrow> p) = path_parts name \<and> path_parts name \<noteq> []"
  by (auto simp: nc_getitem_def Let_def split: if_splits)

lemma L1A_tstamp_set_global:
  assumes "nc_getitem f name = Inr dset"
  shows "L1A_tstamp (set_global a x f) dset i = L1A_tstamp f dset i"
proof -
  from nc_getitem_path [OF assms]
  have ne: "(case dset of Grp g \<Rightarrow> g | Var p \<Rightarrow> p) \<noteq> []" by simp
  have a: "\<And>nm. int_attr (set_global a x f) dset nm = int_attr f dset nm"
    using ne by (simp add: int_attr_def set_global_def)
  have b: "nc_index (set_global a x f) dset i = nc_index f dset i"
    by (simp add: nc_index_def set_global_def split: ncobj.split option.split list.split)
  show ?thesis
    by (simp add: L1A_tstamp_def a b)
qed

lemma L1A_close_ok:
  assumes "fid s = Some f" "dimensions f ''number_of_images'' = Some d" "0 < dsize d"
    "dimensions f ''hk_packets'' = Some dh" "distinct (map fst (dset_stored s))"
    "nc_getitem f ''/image_attributes/image_time'' = Inr dset"
    "L1A_tstamp f dset 0 = Inr t0" "L1A_tstamp f dset (- 1) = Inr t1"
  shows "L1A_close s
   = (None, s\<lparr>stdout := stdout s
        @ map (\<lambda>(k, n). warn_str ''A'' k n)
            (filter (\<lambda>(k, n). (startswith k ''/science_data''
                                \<or> startswith k ''/image_attributes'')
                               \<and> (0 < n \<and> n \<noteq> dsize d)) (dset_stored s))
        @ map (\<lambda>(k, n). warn_str ''A'' k n)
            (filter (\<lambda>(k, n). startswith k ''/engineering_data''
                               \<and> (0 < n \<and> n \<noteq> dsize dh)) (dset_stored s)),
      fid := None,
      ondisk := Some (set_global ''time_coverage_end'' t1
                        (set_global ''time_coverage_start'' t0 f))\<rparr>)"
  using assms(1-3,6-8)
  by (simp add: L1A_close_def L1A_check_stored_ok [OF assms(1,2,4,5)]
      L1A_tstamp_set_global [OF assms(6)] nc_close_def)

subsection \<open>The small product after some writes\<close>

lemma example_paths:
  "path_parent ''/image_attributes/image_ID'' = ''/image_attributes''"
  "path_name ''/image_attributes/image_ID'' = ''image_ID''"
  "path_parts ''/image_attributes/image_ID'' = [''image_attributes'', ''image_ID'']"
  "path_parent ''/image_attributes/image_time'' = ''/image_attributes''"
  "path_name ''/image_attributes/image_time'' = ''image_time''"
  "path_parts ''/image_attributes/image_time'' = [''image_attributes'', ''image_time'']"
  "path_parts ''/image_attributes'' = [''image_attributes'']"
  by (simp_all add: path_parent_def path_name_def path_parts_def path_root_def Let_def)

lemma first_written:
  "first_product_written =
     \<lparr>dset_stored = AList.update ''/image_attributes/image_ID'' 3
         (AList.update ''/image_attributes/image_time'' 3 L1Aio_dset_stored),
      product = ''first.nc'',
      fid = Some (written_file [CFloat 0.5, CFloat 1.5, CFloat 2.5] [CInt 7, CInt 8, CInt 9]),
      epoch = example_epoch, stdout = [], ondisk = None\<rparr>"
  unfolding first_product_written_def written_file_def
  by (simp add: Lv1io_init_def fresh_process_def example_init_def set_dset_def dset_present_def
      nc_getitem_def example_paths store_value_def bump_stored_def nc_put_def
      L1A_example_file_def unlim_var_def L1Aio_dset_stored_def Let_def numeral_3_eq_3)

lemma mismatch_written:
  "mismatch_product =
     \<lparr>dset_stored = AList.update ''/image_attributes/image_ID'' 3
         (AList.update ''/image_attributes/image_time'' 4 L1Aio_dset_stored),
      product = ''first.nc'',
      fid = Some (written_file [CFloat 0.5, CFloat 1.5, CFloat 2.5, CFloat 3.5]
                    [CInt 7, CInt 8, CInt 9]),
      epoch = example_epoch, stdout = [], ondisk = None\<rparr>"
  unfolding mismatch_product_def first_written written_file_def
  by (simp add: set_dset_def dset_present_def
      nc_getitem_def example_paths store_value_def bump_stored_def nc_put_def
      L1A_example_file_def unlim_var_def L1Aio_dset_stored_def Let_def fun_upd_twist)

lemma written_file_facts:
  "dimensions (written_file ts ids) ''number_of_images''
     = Some \<lparr>dsize = length ts, isunlimited = True\<rparr>"
  "dimensions (written_file ts ids) ''hk_packets'' = Some \<lparr>dsize = 0, isunlimited = True\<rparr>"
  "nc_getitem (written_file ts ids) ''/image_attributes/image_time''
     = Inr (Var [''image_attributes'', ''image_time''])"
  by (simp_all add: written_file_def L1A_example_file_def nc_getitem_def example_paths)

lemma written_file_date:
  "int_attr (written_file ts ids) (Var [''image_attributes'', ''image_time'']) ''year'' = Inr 2020"
  "int_attr (written_file ts ids) (Var [''image_attributes'', ''image_time'']) ''month'' = Inr 5"
  "int_attr (written_file ts ids) (Var [''image_attributes'', ''image_time'']) ''day'' = Inr 15"
  by (simp_all add: int_attr_def written_file_def L1A_example_file_def)

lemma example_midnight:
  "mk_datetime 2020 5 15 True = Inr \<lparr>dt_ordinal = 737560, dt_usec = 0, dt_utc = True\<rparr>"
  by (simp add: mk_datetime_def days_in_month_def is_leap_def ymd2ord_def days_before_year_def
      days_before_month_def Let_def)

lemma written_file_index:
  "ts \<noteq> [] \<Longrightarrow> nc_index (written_file ts ids) (Var [''image_attributes'', ''image_time'']) 0
     = Inr (hd ts)"
  "ts \<noteq> [] \<Longrightarrow> nc_index (written_file ts ids) (Var [''image_attributes'', ''image_time'']) (- 1)
     = Inr (last ts)"
  by (simp_all add: nc_index_def written_file_def L1A_example_file_def Let_def hd_conv_nth
      last_conv_nth nat_diff_distrib')

lemma example_dt_add:
  "dt_add \<lparr>dt_ordinal = 737560, dt_usec = 0, dt_utc = True\<rparr> 500000
     = Inr \<lparr>dt_ordinal = 737560, dt_usec = 500000, dt_utc = True\<rparr>"
  "dt_add \<lparr>dt_ordinal = 737560, dt_usec = 0, dt_utc = True\<rparr> 2500000
     = Inr \<lparr>dt_ordinal = 737560, dt_usec = 2500000, dt_utc = True\<rparr>"
  "dt_add \<lparr>dt_ordinal = 737560, dt_usec = 0, dt_utc = True\<rparr> 3500000
     = Inr \<lparr>dt_ordinal = 737560, dt_usec = 3500000, dt_utc = True\<rparr>"
  by (simp_all add: dt_add_def usec_per_day_def Let_def)

lemma example_ymd: "ord2ymd 737560 = (2020, 5, 15)"
  by (simp add: ord2ymd_def days_before_month_def days_in_month_def is_leap_def Let_def)

lemma replicate_small:
  "replicate 1 x = [x]" "replicate 2 x = [x, x]" "replicate 3 x = [x, x, x]"
  by (simp_all add: numeral_2_eq_2 numeral_3_eq_3)

lemma example_digits:
  "zero_pad 4 2020 = ''2020''" "zero_pad 2 5 = ''05''" "zero_pad 2 15 = ''15''"
  "zero_pad 2 0 = ''00''" "zero_pad 2 1 = ''01''" "zero_pad 2 2 = ''02''" "zero_pad 2 3 = ''03''"
  "zero_pad 3 500 = ''500''" "zero_pad 3 0 = ''000''"
  by (simp_all add: zero_pad_def digits.simps digit_char_def replicate_small)

lemma example_isoformat:
  "isoformat_ms \<lparr>dt_ordinal = 737560, dt_usec = 500000, dt_utc = True\<rparr>
     = ''2020-05-15T00:00:00.500+00:00''"
  "isoformat_ms \<lparr>dt_ordinal = 737560, dt_usec = 2500000, dt_utc = True\<rparr>
     = ''2020-05-15T00:00:02.500+00:00''"
  "isoformat_ms \<lparr>dt_ordinal = 737560, dt_usec = 3500000, dt_utc = True\<rparr>
     = ''2020-05-15T00:00:03.500+00:00''"
  by (simp_all add: isoformat_ms_def example_ymd example_digits Let_def)

lemma written_file_tstamp:
  "L1A_tstamp (written_file [CFloat 0.5, CFloat 1.5, CFloat 2.5, CFloat 3.5] ids)
     (Var [''image_attributes'', ''image_time'']) 0 = Inr ''2020-05-15T00:00:00.500+00:00''"
  "L1A_tstamp (written_file [CFloat 0.5, CFloat 1.5, CFloat 2.5, CFloat 3.5] ids)
     (Var [''image_attributes'', ''image_time'']) (- 1) = Inr ''2020-05-15T00:00:03.500+00:00''"
  "L1A_tstamp (written_file [CFloat 0.5, CFloat 1.5, CFloat 2.5] ids)
     (Var [''image_attributes'', ''image_time'']) 0 = Inr ''2020-05-15T00:00:00.500+00:00''"
  "L1A_tstamp (written_file [CFloat 0.5, CFloat 1.5, CFloat 2.5] ids)
     (Var [''image_attributes'', ''image_time'']) (- 1) = Inr ''2020-05-15T00:00:02.500+00:00''"
  by (simp_all add: L1A_tstamp_def bind_err_def written_file_date example_midnight
      written_file_index example_dt_add example_isoformat
      mk_timedelta_def usec_per_day_def round_half_even_def Let_def)

subsection \<open>Closing a product with inconsistent counters\<close>

lemma mismatch_table:
  "dset_stored mismatch_product =
     [(''/science_data/detector_images'', 0),
      (''/science_data/detector_telemetry'', 0),
      (''/image_attributes/binning_table'', 0),
      (''/image_attributes/digital_offset'', 0),
      (''/image_attributes/nr_coadditions'', 0),
      (''/image_attributes/exposure_time'', 0),
      (''/image_attributes/icu_time_sec'', 0),
      (''/image_attributes/icu_time_subsec'', 0),
      (''/image_attributes/image_time'', 4),
      (''/image_attributes/image_ID'', 3),
      (''/engineering_data/NomHK_telemetry'', 0),
      (''/engineering_data/temp_detector'', 0),
      (''/engineering_data/temp_housing'', 0),
      (''/engineering_data/temp_radiator'', 0),
      (''/engineering_data/HK_tlm_time'', 0)]"
  by (simp add: mismatch_written L1Aio_dset_stored_def)

lemma mismatch_warnings:
  "map (\<lambda>(k, n). warn_str ''A'' k n)
     (filter (\<lambda>(k, n). (startswith k ''/science_data'' \<or> startswith k ''/image_attributes'')
                        \<and> (0 < n \<and> n \<noteq> 4)) (dset_stored mismatch_product))
   = [warn_str ''A'' ''/image_attributes/image_ID'' 3]"
  "map (\<lambda>(k, n). warn_str ''A'' k n)
     (filter (\<lambda>(k, n). startswith k ''/engineering_data'' \<and> (0 < n \<and> n \<noteq> 0))
        (dset_stored mismatch_product))
   = []"
  "map (\<lambda>(k, n). warn_str ''A'' k n)
     (filter (\<lambda>(k, n). startswith k ''/engineering_data'' \<and> 0 < n)
        (dset_stored mismatch_product))
   = []"
  unfolding mismatch_table by (simp_all add: startswith_def)



subsection \<open>All outcomes of \<open>L1Aio.close\<close> on an open product\<close>












lemma hk_paths:
  "path_parent ''/engineering_data/NomHK_telemetry'' = ''/engineering_data''"
  "path_name ''/engineering_data/NomHK_telemetry'' = ''NomHK_telemetry''"
  "path_parts ''/engineering_data/NomHK_telemetry'' = [''engineering_data'', ''NomHK_telemetry'']"
  "path_parent ''/engineering_data/temp_detector'' = ''/engineering_data''"
  "path_name ''/engineering_data/temp_detector'' = ''temp_detector''"
  "path_parts ''/engineering_data/temp_detector'' = [''engineering_data'', ''temp_detector'']"
  "path_parent ''/engineering_data/temp_housing'' = ''/engineering_data''"
  "path_name ''/engineering_data/temp_housing'' = ''temp_housing''"
  "path_parts ''/engineering_data/temp_housing'' = [''engineering_data'', ''temp_housing'']"
  "path_parent ''/engineering_data/temp_radiator'' = ''/engineering_data''"
  "path_name ''/engineering_data/temp_radiator'' = ''temp_radiator''"
  "path_parts ''/engineering_data/temp_radiator'' = [''engineering_data'', ''temp_radiator'']"
  "path_parts ''/engineering_data'' = [''engineering_data'']"
  by (simp_all add: path_parent_def path_name_def path_parts_def path_root_def Let_def)






lemma L1A_example_facts:
  "fid L1A_example = Some L1A_example_file"
  "dimensions L1A_example_file ''number_of_images'' = Some \<lparr>dsize = 0, isunlimited = True\<rparr>"
  "dimensions L1A_example_file ''hk_packets'' = Some \<lparr>dsize = 0, isunlimited = True\<rparr>"
  "nc_getitem L1A_example_file ''/image_attributes/image_time''
     = Inr (Var [''image_attributes'', ''image_time''])"
  by (simp_all add: L1A_example_def L1A_example_file_def nc_getitem_def example_paths)





subsection \<open>A second product in the same process\<close>

lemma Lv1io_init_keeps_counters:
  "dset_stored (snd (Lv1io_init lvl init_l1x existing nm ref_date dims False s)) = dset_stored s"
  by (simp add: Lv1io_init_def Let_def)

lemma first_close:
  "L1A_close first_product_written
   = (None, first_product_written
        \<lparr>stdout := [], fid := None,
         ondisk := Some (set_global ''time_coverage_end'' ''2020-05-15T00:00:02.500+00:00''
                    (set_global ''time_coverage_start'' ''2020-05-15T00:00:00.500+00:00''
                       (written_file [CFloat 0.5, CFloat 1.5, CFloat 2.5]
                          [CInt 7, CInt 8, CInt 9])))\<rparr>)"
proof -
  have f: "fid first_product_written
     = Some (written_file [CFloat 0.5, CFloat 1.5, CFloat 2.5] [CInt 7, CInt 8, CInt 9])"
    and o: "stdout first_product_written = []"
    and t: "dset_stored first_product_written
      = AList.update ''/image_attributes/image_ID'' 3
         (AList.update ''/image_attributes/image_time'' 3 L1Aio_dset_stored)"
    by (simp_all add: first_written)
  have d: "distinct (map fst (dset_stored first_product_written))"
    unfolding t by (simp add: L1Aio_dset_stored_def)
  have n: "0 < dsize \<lparr>dsize = 3, isunlimited = True\<rparr>"
    by simp
  have dm: "dimensions (written_file [CFloat 0.5, CFloat 1.5, CFloat 2.5] [CInt 7, CInt 8, CInt 9])
     ''number_of_images'' = Some \<lparr>dsize = 3, isunlimited = True\<rparr>"
    by (simp add: written_file_facts)
  have w: "filter (\<lambda>(k, n). (startswith k ''/science_data'' \<or> startswith k ''/image_attributes'')
                        \<and> (0 < n \<and> n \<noteq> 3)) (dset_stored first_product_written) = []"
    "filter (\<lambda>(k, n). startswith k ''/engineering_data'' \<and> 0 < n)
        (dset_stored first_product_written) = []"
    unfolding t by (simp_all add: L1Aio_dset_stored_def startswith_def)
  from L1A_close_ok [OF f dm n written_file_facts(2) d
      written_file_facts(3) written_file_tstamp(3) written_file_tstamp(4)]
  show ?thesis
    by (simp add: w o)
qed

text \<open>
  Claim C8 fails on the code. \<open>__init__\<close> without \<open>append\<close> does not touch
  \<open>dset_stored\<close>, which is the dictionary of the class and not of the instance. After a
  first product has written three rows to \<open>image_ID\<close> and was closed, a second product
  created in the same process has a new, empty file, and its counter of \<open>image_ID\<close>
  is 3, not 0.
\<close>

theorem second_product_inherits_counters:
  "fst (L1A_close first_product_written) = None
   \<and> fid first_product_closed = None
   \<and> fst (Lv1io_init L1A example_init None ''second.nc'' example_epoch () False
            first_product_closed) = None
   \<and> fid (snd (Lv1io_init L1A example_init None ''second.nc'' example_epoch () False
            first_product_closed)) = Some L1A_example_file
   \<and> map_of (dset_stored (snd (Lv1io_init L1A example_init None ''second.nc'' example_epoch ()
            False first_product_closed))) ''/image_attributes/image_ID'' = Some 3"
proof -
  have t: "dset_stored first_product_closed
      = AList.update ''/image_attributes/image_ID'' 3
         (AList.update ''/image_attributes/image_time'' 3 L1Aio_dset_stored)"
    unfolding first_product_closed_def first_close by (simp add: first_written)
  have c: "fid first_product_closed = None"
    by (simp add: first_product_closed_def first_close)
  have m: "map_of (dset_stored first_product_closed) ''/image_attributes/image_ID'' = Some 3"
    unfolding t by (simp add: AList.update_conv')
  show ?thesis
    using c m
    by (simp add: first_close Lv1io_init_keeps_counters)
      (simp add: Lv1io_init_def example_init_def Let_def)
qed

subsection \<open>The order of the packet files\<close>

lemma read_loop_existing:
  assumes "\<forall>fl\<in>set fls. is_file fl"
    and "\<forall>fl\<in>set fls. is_file fl \<and> path_suffix fl \<noteq> ''.H'' \<longrightarrow> read fl = Inr (pk fl)"
  shows "read_loop is_file read fls (acc, out)
         = Inr (acc @ concat (map pk (filter (\<lambda>fl. path_suffix fl \<noteq> ''.H'') fls)),
                out @ replicate (length (filter (\<lambda>fl. path_suffix fl = ''.H'') fls))
                        ''[INFO]: skip CCSDS header file'')"
  using assms
proof (induction fls arbitrary: acc out)
  case Nil
  then show ?case by simp
next
  case (Cons fl fls)
  show ?case
  proof (cases "path_suffix fl = ''.H''")
    case True
    with Cons show ?thesis
      by (simp add: replicate_app_Cons_same)
  next
    case False
    with Cons show ?thesis
      by simp
  qed
qed

lemma read_loop_missing:
  assumes "\<exists>fl\<in>set fls. \<not> is_file fl"
    and "\<forall>fl\<in>set fls. is_file fl \<and> path_suffix fl \<noteq> ''.H'' \<longrightarrow> read fl = Inr (pk fl)"
  shows "read_loop is_file read fls (acc, out) = Inl FileNotFoundError"
  using assms
proof (induction fls arbitrary: acc out)
  case Nil
  then show ?case by simp
next
  case (Cons fl fls)
  show ?case
  proof (cases "is_file fl")
    case False
    then show ?thesis by simp
  next
    case True
    with Cons.prems have m: "\<exists>fl\<in>set fls. \<not> is_file fl"
      and r: "\<forall>fl\<in>set fls. is_file fl \<and> path_suffix fl \<noteq> ''.H'' \<longrightarrow> read fl = Inr (pk fl)"
      by auto
    show ?thesis
    proof (cases "path_suffix fl = ''.H''")
      case h: True
      with True Cons.IH [OF m r] show ?thesis by simp
    next
      case h: False
      with True Cons.prems(2) have "read fl = Inr (pk fl)" by simp
      with True h Cons.IH [OF m r] show ?thesis by simp
    qed
  qed
qed

text \<open>
  Claim C9, as the code has it. Assume that every file of the command line that is read
  yields its packets. When every path of the command line is a file, the packet list is
  the concatenation of the packets of the files in the sorted order of their names,
  whatever the order on the command line, and a file with the suffix \<open>.H\<close> is skipped
  with a message. When some path is not a file, \<open>main\<close> raises FileNotFoundError.
\<close>

theorem read_packets_in_sorted_order:
  assumes "\<forall>fl\<in>set file_list. is_file fl \<and> path_suffix fl \<noteq> ''.H'' \<longrightarrow> read fl = Inr (pk fl)"
  shows "((\<forall>fl\<in>set file_list. is_file fl) \<longrightarrow>
          read_packets is_file read file_list
          = Inr (concat (map pk (filter (\<lambda>fl. path_suffix fl \<noteq> ''.H'') (sort file_list))),
                 replicate (length (filter (\<lambda>fl. path_suffix fl = ''.H'') (sort file_list)))
                   ''[INFO]: skip CCSDS header file''))
       \<and> ((\<exists>fl\<in>set file_list. \<not> is_file fl) \<longrightarrow>
          read_packets is_file read file_list = Inl FileNotFoundError)"
proof -
  have s: "set (sort file_list) = set file_list" by simp
  have a: "read_packets is_file read file_list
          = Inr (concat (map pk (filter (\<lambda>fl. path_suffix fl \<noteq> ''.H'') (sort file_list))),
                 replicate (length (filter (\<lambda>fl. path_suffix fl = ''.H'') (sort file_list)))
                   ''[INFO]: skip CCSDS header file'')"
    if "\<forall>fl\<in>set file_list. is_file fl"
    unfolding read_packets_def
    using read_loop_existing [of "sort file_list" is_file read pk "[]" "[]"] that assms
    by (simp only: s) simp
  have b: "read_packets is_file read file_list = Inl FileNotFoundError"
    if "\<exists>fl\<in>set file_list. \<not> is_file fl"
    unfolding read_packets_def
    using read_loop_missing [of "sort file_list" is_file read pk "[]" "[]"] that assms
    by (simp only: s)
  from a b show ?thesis by blast
qed

lemma example_sort: "sort [''b.bin'', ''a.bin''] = [''a.bin'', ''b.bin'']"
  by simp

lemma example_suffix: "path_suffix ''a.bin'' = ''.bin''" "path_suffix ''b.bin'' = ''.bin''"
  by (simp_all add: path_suffix_def path_name_def path_parts_def Let_def)

text \<open>
  The theorem for the command line \<open>b.bin a.bin\<close>: the packets of \<open>a.bin\<close> come first
  when both are files, and FileNotFoundError when \<open>b.bin\<close> is not a file.
\<close>

theorem read_packets_in_sorted_order_witness:
  "all_files ''b.bin'' \<and> all_files ''a.bin''
   \<and> example_read ''b.bin'' = Inr [''b.bin''] \<and> example_read ''a.bin'' = Inr [''a.bin'']
   \<and> read_packets all_files example_read [''b.bin'', ''a.bin'']
      = Inr ([''a.bin'', ''b.bin''], [])
   \<and> a_only ''b.bin'' = False
   \<and> read_packets a_only example_read [''b.bin'', ''a.bin''] = Inl FileNotFoundError"
  using read_packets_in_sorted_order [of "[''b.bin'', ''a.bin'']" all_files example_read
      "\<lambda>fl. [fl]"]
    read_packets_in_sorted_order [of "[''b.bin'', ''a.bin'']" a_only example_read
      "\<lambda>fl. [fl]"]
  by (simp add: all_files_def a_only_def example_read_def example_sort example_suffix)

text \<open>
  Claim C9 as stated fails: for the command line \<open>b.bin a.bin\<close> the packets are not in
  the order of the file list.
\<close>

theorem read_packets_not_in_list_order:
  "read_packets all_files example_read [''b.bin'', ''a.bin''] = Inr ([''a.bin'', ''b.bin''], [])
   \<and> read_packets all_files example_read [''b.bin'', ''a.bin''] \<noteq> Inr ([''b.bin'', ''a.bin''], [])"
  by (simp add: read_packets_def example_sort all_files_def example_read_def example_suffix)

subsection \<open>The time coverage of \<open>L1Bio.close\<close>\<close>

text \<open>
  The second term of the time stamp of \<open>L1Bio.close\<close>,
  \<open>timedelta(microseconds=int(secnd % 1))\<close>, is always zero: \<open>secnd % 1\<close> lies between 0
  and 1 and \<open>int\<close> cuts it to 0.
\<close>

lemma frac_microseconds_zero:
  assumes "timedelta_int_frac_microseconds c = Inr td"
  shows "td = 0"
proof (cases c)
  case (CInt n)
  with assms show ?thesis
    by (simp add: mk_timedelta_def split: if_splits)
next
  case (CFloat r)
  have "0 \<le> r - of_int \<lfloor>r\<rfloor>" "r - of_int \<lfloor>r\<rfloor> < 1"
    by linarith+
  then have "trunc (r - of_int \<lfloor>r\<rfloor>) = 0"
    by (simp add: trunc_def floor_eq_iff)
  with CFloat assms show ?thesis
    by (simp add: mk_timedelta_def split: if_splits)
next
  case CNaN
  with assms show ?thesis by simp
next
  case (CRec h)
  with assms show ?thesis by simp
next
  case (CArr cs)
  with assms show ?thesis by simp
qed

lemma L1B_check_stored_ok:
  assumes "fid s = Some f" "dimensions f ''number_of_views'' = Some a"
    "dimensions f ''bins_along_track'' = Some b"
  shows "\<exists>out. L1B_check_stored s = (None, s\<lparr>stdout := out\<rparr>)"
  using assms
  by (simp add: L1B_check_stored_def get_dim_def Let_def) (rule exI, rule refl)

lemma L1B_close_ok:
  assumes "fid s = Some f" "dimensions f ''number_of_views'' = Some a"
    "dimensions f ''bins_along_track'' = Some b" "0 < dsize b"
    "nc_getitem f ''/BIN_ATTRIBUTES/image_time'' = Inr dset"
    "L1B_time (epoch s) f dset 0 = Inr time0" "L1B_time (epoch s) f dset (- 1) = Inr time1"
  shows "\<exists>out. L1B_close s
    = (None, s\<lparr>stdout := out, fid := None,
                ondisk := Some (set_global ''time_coverage_end'' (isoformat_ms time1)
                           (set_global ''time_coverage_start'' (isoformat_ms time0) f))\<rparr>)"
proof -
  from L1B_check_stored_ok [OF assms(1-3)] obtain out where
    c: "L1B_check_stored s = (None, s\<lparr>stdout := out\<rparr>)" by blast
  have "L1B_close s
    = (None, s\<lparr>stdout := out, fid := None,
                ondisk := Some (set_global ''time_coverage_end'' (isoformat_ms time1)
                           (set_global ''time_coverage_start'' (isoformat_ms time0) f))\<rparr>)"
    using assms by (simp add: L1B_close_def c bind_err_def nc_close_def)
  then show ?thesis ..
qed

lemma L1B_paths:
  "path_parent ''/BIN_ATTRIBUTES/image_time'' = ''/BIN_ATTRIBUTES''"
  "path_name ''/BIN_ATTRIBUTES/image_time'' = ''image_time''"
  "path_parts ''/BIN_ATTRIBUTES/image_time'' = [''BIN_ATTRIBUTES'', ''image_time'']"
  "path_parts ''/BIN_ATTRIBUTES'' = [''BIN_ATTRIBUTES'']"
  by (simp_all add: path_parent_def path_name_def path_parts_def path_root_def Let_def)

lemma L1B_written_state:
  "fid L1B_written
     = Some (L1B_example_file
        \<lparr>dimensions := (dimensions L1B_example_file)
            (''bins_along_track'' \<mapsto> \<lparr>dsize = 1, isunlimited = True\<rparr>),
         variables := (variables L1B_example_file)
            ([''BIN_ATTRIBUTES'', ''image_time''] \<mapsto>
               \<lparr>vdims = [''bins_along_track''], vdata = [CFloat 1.5], vfill = CNaN\<rparr>)\<rparr>)"
  "epoch L1B_written = example_epoch"
  unfolding L1B_written_def
  by (simp_all add: L1B_example_def set_dset_def dset_present_def nc_getitem_def L1B_paths
      store_value_def bump_stored_def nc_put_def L1B_example_file_def unlim_var_def
      L1Bio_dset_stored_def Let_def)

lemma L1B_written_facts:
  "dimensions (L1B_example_file
        \<lparr>dimensions := (dimensions L1B_example_file)
            (''bins_along_track'' \<mapsto> \<lparr>dsize = 1, isunlimited = True\<rparr>),
         variables := (variables L1B_example_file)
            ([''BIN_ATTRIBUTES'', ''image_time''] \<mapsto>
               \<lparr>vdims = [''bins_along_track''], vdata = [CFloat 1.5], vfill = CNaN\<rparr>)\<rparr>)
     ''number_of_views'' = Some \<lparr>dsize = 5, isunlimited = False\<rparr>"
  "dimensions (L1B_example_file
        \<lparr>dimensions := (dimensions L1B_example_file)
            (''bins_along_track'' \<mapsto> \<lparr>dsize = 1, isunlimited = True\<rparr>),
         variables := (variables L1B_example_file)
            ([''BIN_ATTRIBUTES'', ''image_time''] \<mapsto>
               \<lparr>vdims = [''bins_along_track''], vdata = [CFloat 1.5], vfill = CNaN\<rparr>)\<rparr>)
     ''bins_along_track'' = Some \<lparr>dsize = 1, isunlimited = True\<rparr>"
  "nc_getitem (L1B_example_file
        \<lparr>dimensions := (dimensions L1B_example_file)
            (''bins_along_track'' \<mapsto> \<lparr>dsize = 1, isunlimited = True\<rparr>),
         variables := (variables L1B_example_file)
            ([''BIN_ATTRIBUTES'', ''image_time''] \<mapsto>
               \<lparr>vdims = [''bins_along_track''], vdata = [CFloat 1.5], vfill = CNaN\<rparr>)\<rparr>)
     ''/BIN_ATTRIBUTES/image_time'' = Inr (Var [''BIN_ATTRIBUTES'', ''image_time''])"
  by (simp_all add: L1B_example_file_def nc_getitem_def L1B_paths)

lemma L1B_example_time:
  "L1B_time example_epoch (L1B_example_file
        \<lparr>dimensions := (dimensions L1B_example_file)
            (''bins_along_track'' \<mapsto> \<lparr>dsize = 1, isunlimited = True\<rparr>),
         variables := (variables L1B_example_file)
            ([''BIN_ATTRIBUTES'', ''image_time''] \<mapsto>
               \<lparr>vdims = [''bins_along_track''], vdata = [CFloat 1.5], vfill = CNaN\<rparr>)\<rparr>)
     (Var [''BIN_ATTRIBUTES'', ''image_time'']) 0
   = Inr \<lparr>dt_ordinal = 719163, dt_usec = 1000000, dt_utc = False\<rparr>"
  "L1B_time example_epoch (L1B_example_file
        \<lparr>dimensions := (dimensions L1B_example_file)
            (''bins_along_track'' \<mapsto> \<lparr>dsize = 1, isunlimited = True\<rparr>),
         variables := (variables L1B_example_file)
            ([''BIN_ATTRIBUTES'', ''image_time''] \<mapsto>
               \<lparr>vdims = [''bins_along_track''], vdata = [CFloat 1.5], vfill = CNaN\<rparr>)\<rparr>)
     (Var [''BIN_ATTRIBUTES'', ''image_time'']) (- 1)
   = Inr \<lparr>dt_ordinal = 719163, dt_usec = 1000000, dt_utc = False\<rparr>"
  by (simp_all add: L1B_time_def bind_err_def nc_index_def L1B_example_file_def
      mk_timedelta_def usec_per_day_def trunc_def dt_add_def example_epoch_def Let_def)

lemma epoch_ymd: "ord2ymd 719163 = (1970, 1, 1)"
  by (simp add: ord2ymd_def days_before_month_def days_in_month_def is_leap_def Let_def)

lemma epoch_digits: "zero_pad 4 1970 = ''1970''"
  by (simp add: zero_pad_def digits.simps digit_char_def)

lemma epoch_isoformat:
  "isoformat_ms \<lparr>dt_ordinal = 719163, dt_usec = 1000000, dt_utc = False\<rparr>
     = ''1970-01-01T00:00:01.000''"
  by (simp add: isoformat_ms_def epoch_ymd epoch_digits example_digits Let_def)

lemma epoch_isoformat_ms:
  "isoformat_ms \<lparr>dt_ordinal = 719163, dt_usec = 1500000, dt_utc = False\<rparr>
     = ''1970-01-01T00:00:01.500''"
  by (simp add: isoformat_ms_def epoch_ymd epoch_digits example_digits Let_def)

text \<open>
  Claim C2 fails on the code of \<open>L1Bio.close\<close>. The product holds one time, 1.5 seconds
  after the reference date 1970-01-01. \<open>close\<close> returns normally and releases the file,
  but both time-coverage attributes are \<open>1970-01-01T00:00:01.000\<close>: the fraction of the
  entry is lost, where the entry itself formats as \<open>1970-01-01T00:00:01.500\<close>.
\<close>

theorem L1B_close_drops_fraction:
  "stored_rows L1B_written [''BIN_ATTRIBUTES'', ''image_time''] = [CFloat 1.5]
   \<and> fst (L1B_close L1B_written) = None
   \<and> fid (snd (L1B_close L1B_written)) = None
   \<and> global_attr (ondisk (snd (L1B_close L1B_written))) ''time_coverage_start''
       = Some (AStr ''1970-01-01T00:00:01.000'')
   \<and> global_attr (ondisk (snd (L1B_close L1B_written))) ''time_coverage_end''
       = Some (AStr ''1970-01-01T00:00:01.000'')
   \<and> isoformat_ms \<lparr>dt_ordinal = 719163, dt_usec = 1500000, dt_utc = False\<rparr>
       = ''1970-01-01T00:00:01.500''"
proof -
  have p: "0 < dsize \<lparr>dsize = 1, isunlimited = True\<rparr>" by simp
  have r: "stored_rows L1B_written [''BIN_ATTRIBUTES'', ''image_time''] = [CFloat 1.5]"
    by (simp add: stored_rows_def L1B_written_state(1))
  have e: "L1B_time (epoch L1B_written) (L1B_example_file
        \<lparr>dimensions := (dimensions L1B_example_file)
            (''bins_along_track'' \<mapsto> \<lparr>dsize = 1, isunlimited = True\<rparr>),
         variables := (variables L1B_example_file)
            ([''BIN_ATTRIBUTES'', ''image_time''] \<mapsto>
               \<lparr>vdims = [''bins_along_track''], vdata = [CFloat 1.5], vfill = CNaN\<rparr>)\<rparr>)
     (Var [''BIN_ATTRIBUTES'', ''image_time'']) 0
       = Inr \<lparr>dt_ordinal = 719163, dt_usec = 1000000, dt_utc = False\<rparr>"
    "L1B_time (epoch L1B_written) (L1B_example_file
        \<lparr>dimensions := (dimensions L1B_example_file)
            (''bins_along_track'' \<mapsto> \<lparr>dsize = 1, isunlimited = True\<rparr>),
         variables := (variables L1B_example_file)
            ([''BIN_ATTRIBUTES'', ''image_time''] \<mapsto>
               \<lparr>vdims = [''bins_along_track''], vdata = [CFloat 1.5], vfill = CNaN\<rparr>)\<rparr>)
     (Var [''BIN_ATTRIBUTES'', ''image_time'']) (- 1)
       = Inr \<lparr>dt_ordinal = 719163, dt_usec = 1000000, dt_utc = False\<rparr>"
    unfolding L1B_written_state(2) by (rule L1B_example_time)+
  from L1B_close_ok [OF L1B_written_state(1) L1B_written_facts(1,2) p L1B_written_facts(3) e]
  obtain out where
    c: "L1B_close L1B_written
      = (None, L1B_written\<lparr>stdout := out, fid := None,
           ondisk := Some (set_global ''time_coverage_end'' ''1970-01-01T00:00:01.000''
             (set_global ''time_coverage_start'' ''1970-01-01T00:00:01.000''
               (L1B_example_file
        \<lparr>dimensions := (dimensions L1B_example_file)
            (''bins_along_track'' \<mapsto> \<lparr>dsize = 1, isunlimited = True\<rparr>),
         variables := (variables L1B_example_file)
            ([''BIN_ATTRIBUTES'', ''image_time''] \<mapsto>
               \<lparr>vdims = [''bins_along_track''], vdata = [CFloat 1.5], vfill = CNaN\<rparr>)\<rparr>)))\<rparr>)"
    unfolding epoch_isoformat by blast
  show ?thesis
    using r epoch_isoformat_ms
    by (simp add: c global_attr_def set_global_def)
qed

subsection \<open>The temperatures that \<open>fill_nomhk\<close> stores\<close>

lemma nc_put_rows: "take (length rows) (drop n (nc_put old fillv n rows)) = rows"
proof (cases "rows = []")
  case True
  then show ?thesis by simp
next
  case False
  have "length (take n (old @ replicate (n - length old) fillv)) = n"
    by simp
  then show ?thesis
    using False by (simp add: nc_put_def)
qed

lemma stored_rows_fid:
  "stored_rows (s\<lparr>fid := Some f, dset_stored := t\<rparr>) p
     = (case variables f p of None \<Rightarrow> [] | Some v \<Rightarrow> vdata v)"
  by (simp add: stored_rows_def)

lemma set_dset_append_rows:
  assumes "fid s = Some f" "unlimited_var f name" "map_of (dset_stored s) name = Some n"
  shows "\<exists>f'. set_dset name (Array rows) (- 1) s
            = (None, s\<lparr>fid := Some f',
                        dset_stored := AList.update name (n + length rows) (dset_stored s)\<rparr>)
          \<and> same_schema f f'
          \<and> (\<forall>q. q \<noteq> path_parts name \<longrightarrow> variables f' q = variables f q)
          \<and> (\<exists>v'. variables f' (path_parts name) = Some v'
                  \<and> take (length rows) (drop n (vdata v')) = rows)"
proof -
  from set_dset_unlimited [OF assms, of "Array rows" "- 1"] obtain p v d dm where
    gi: "nc_getitem f name = Inr (Var p)" and vv: "variables f p = Some v"
    and dd: "dimensions f d = Some dm"
    and st: "set_dset name (Array rows) (- 1) s
            = (None, s\<lparr>fid := Some (f\<lparr>dimensions := (dimensions f)
                            (d \<mapsto> dm\<lparr>dsize := snd (nc_assign_from v (dsize dm) n (Array rows))\<rparr>),
                          variables := (variables f)
                            (p \<mapsto> v\<lparr>vdata := fst (nc_assign_from v (dsize dm) n (Array rows))\<rparr>)\<rparr>),
                      dset_stored := AList.update name (n + shape0 (Array rows)) (dset_stored s)\<rparr>)"
    by auto
  from nc_getitem_path [OF gi] have pp: "p = path_parts name" by simp
  let ?f' = "f\<lparr>dimensions := (dimensions f)
                 (d \<mapsto> dm\<lparr>dsize := snd (nc_assign_from v (dsize dm) n (Array rows))\<rparr>),
               variables := (variables f)
                 (p \<mapsto> v\<lparr>vdata := fst (nc_assign_from v (dsize dm) n (Array rows))\<rparr>)\<rparr>"
  have a: "same_schema f ?f'"
    using vv dd by (auto simp: same_schema_def)
  have b: "\<forall>q. q \<noteq> path_parts name \<longrightarrow> variables ?f' q = variables f q"
    using pp by simp
  have c: "\<exists>v'. variables ?f' (path_parts name) = Some v'
                  \<and> take (length rows) (drop n (vdata v')) = rows"
    using pp by (simp add: nc_put_rows)
  from st a b c show ?thesis
    by (intro exI [of _ ?f']) simp
qed

lemma four_appends:
  assumes f: "fid s = Some f"
    and ua: "unlimited_var f a" and ub: "unlimited_var f b"
    and uc: "unlimited_var f c" and ud: "unlimited_var f d"
    and na: "map_of (dset_stored s) a = Some na" and nb: "map_of (dset_stored s) b = Some nb"
    and nc: "map_of (dset_stored s) c = Some nc" and nd: "map_of (dset_stored s) d = Some nd"
    and names: "a \<noteq> b" "a \<noteq> c" "a \<noteq> d" "b \<noteq> c" "b \<noteq> d" "c \<noteq> d"
    and paths: "path_parts b \<noteq> path_parts c" "path_parts b \<noteq> path_parts d"
      "path_parts c \<noteq> path_parts d"
  shows "\<exists>s'. and_then (set_dset a (Array ra) (- 1))
               (and_then (set_dset b (Array rb) (- 1))
                 (and_then (set_dset c (Array rc) (- 1)) (set_dset d (Array rd) (- 1)))) s
              = (None, s')
         \<and> take (length rb) (drop nb (stored_rows s' (path_parts b))) = rb
         \<and> take (length rc) (drop nc (stored_rows s' (path_parts c))) = rc
         \<and> take (length rd) (drop nd (stored_rows s' (path_parts d))) = rd"
proof -
  from set_dset_append_rows [OF f ua na, of ra] obtain f1 where
    s1: "set_dset a (Array ra) (- 1) s
           = (None, s\<lparr>fid := Some f1,
                       dset_stored := AList.update a (na + length ra) (dset_stored s)\<rparr>)"
    and ss1: "same_schema f f1"
    by blast
  let ?s1 = "s\<lparr>fid := Some f1, dset_stored := AList.update a (na + length ra) (dset_stored s)\<rparr>"
  have f1: "fid ?s1 = Some f1" by simp
  have m1: "map_of (dset_stored ?s1) b = Some nb" "map_of (dset_stored ?s1) c = Some nc"
    "map_of (dset_stored ?s1) d = Some nd"
    using nb nc nd names by (simp_all add: AList.update_conv')
  from set_dset_append_rows [OF f1 same_schema_unlimited [OF ss1 ub] m1(1), of rb]
  obtain f2 vb where
    s2: "set_dset b (Array rb) (- 1) ?s1
           = (None, ?s1\<lparr>fid := Some f2,
                       dset_stored := AList.update b (nb + length rb) (dset_stored ?s1)\<rparr>)"
    and ss2: "same_schema f1 f2"
    and vb: "variables f2 (path_parts b) = Some vb" "take (length rb) (drop nb (vdata vb)) = rb"
    by blast
  let ?s2 = "?s1\<lparr>fid := Some f2, dset_stored := AList.update b (nb + length rb) (dset_stored ?s1)\<rparr>"
  have f2: "fid ?s2 = Some f2" by simp
  have m2: "map_of (dset_stored ?s2) c = Some nc" "map_of (dset_stored ?s2) d = Some nd"
    using m1 names by (simp_all add: AList.update_conv')
  have u2: "unlimited_var f2 c" "unlimited_var f2 d"
    using same_schema_unlimited [OF ss2 same_schema_unlimited [OF ss1 uc]]
      same_schema_unlimited [OF ss2 same_schema_unlimited [OF ss1 ud]] by blast+
  from set_dset_append_rows [OF f2 u2(1) m2(1), of rc]
  obtain f3 vc where
    s3: "set_dset c (Array rc) (- 1) ?s2
           = (None, ?s2\<lparr>fid := Some f3,
                       dset_stored := AList.update c (nc + length rc) (dset_stored ?s2)\<rparr>)"
    and ss3: "same_schema f2 f3"
    and k3: "\<forall>q. q \<noteq> path_parts c \<longrightarrow> variables f3 q = variables f2 q"
    and vc: "variables f3 (path_parts c) = Some vc" "take (length rc) (drop nc (vdata vc)) = rc"
    by blast
  let ?s3 = "?s2\<lparr>fid := Some f3, dset_stored := AList.update c (nc + length rc) (dset_stored ?s2)\<rparr>"
  have f3: "fid ?s3 = Some f3" by simp
  have m3: "map_of (dset_stored ?s3) d = Some nd"
    using m2 names by (simp add: AList.update_conv')
  from set_dset_append_rows [OF f3 same_schema_unlimited [OF ss3 u2(2)] m3, of rd]
  obtain f4 vd where
    s4: "set_dset d (Array rd) (- 1) ?s3
           = (None, ?s3\<lparr>fid := Some f4,
                       dset_stored := AList.update d (nd + length rd) (dset_stored ?s3)\<rparr>)"
    and k4: "\<forall>q. q \<noteq> path_parts d \<longrightarrow> variables f4 q = variables f3 q"
    and vd: "variables f4 (path_parts d) = Some vd" "take (length rd) (drop nd (vdata vd)) = rd"
    by blast
  let ?s4 = "?s3\<lparr>fid := Some f4, dset_stored := AList.update d (nd + length rd) (dset_stored ?s3)\<rparr>"
  have run: "and_then (set_dset a (Array ra) (- 1))
               (and_then (set_dset b (Array rb) (- 1))
                 (and_then (set_dset c (Array rc) (- 1)) (set_dset d (Array rd) (- 1)))) s
              = (None, ?s4)"
    by (simp add: and_then_def s1 s2 [simplified] s3 [simplified] s4 [simplified])
  have b4: "variables f4 (path_parts b) = Some vb"
    using k4 k3 paths vb(1) by simp
  have c4: "variables f4 (path_parts c) = Some vc"
    using k4 paths vc(1) by simp
  have rows: "stored_rows ?s4 (path_parts b) = vdata vb"
    "stored_rows ?s4 (path_parts c) = vdata vc"
    "stored_rows ?s4 (path_parts d) = vdata vd"
    using b4 c4 vd(1) by (simp_all add: stored_rows_def)
  show ?thesis
    using run vb(2) vc(2) vd(2) unfolding rows [symmetric] by blast
qed

lemma fill_nomhk_chain:
  "nomhk_data \<noteq> [] \<Longrightarrow>
   fill_nomhk nomhk_data s
   = and_then (set_dset ''/engineering_data/NomHK_telemetry'' (Array (map CRec nomhk_data)) (- 1))
       (and_then
          (set_dset ''/engineering_data/temp_detector''
             (Array (if list_all (\<lambda>r. TS1_DEM_N_T r = 0) nomhk_data
                     then replicate (length nomhk_data) (CInt 273)
                     else frac_poly (map TS1_DEM_N_T nomhk_data) None)) (- 1))
       (and_then
          (set_dset ''/engineering_data/temp_housing''
             (Array (if list_all (\<lambda>r. TS2_HOUSING_N_T r = 0) nomhk_data
                     then replicate (length nomhk_data) (CInt 293)
                     else frac_poly (map TS2_HOUSING_N_T nomhk_data) None)) (- 1))
          (set_dset ''/engineering_data/temp_radiator''
             (Array (if list_all (\<lambda>r. TS3_RADIATOR_N_T r = 0) nomhk_data
                     then replicate (length nomhk_data) (CInt 294)
                     else frac_poly (map TS3_RADIATOR_N_T nomhk_data) None)) (- 1)))) s"
  by (simp add: fill_nomhk_def)

lemma length_frac_poly: "length (frac_poly xs cfs) = length xs"
  by (simp add: frac_poly_def)

lemma hk_names_distinct:
  "''/engineering_data/NomHK_telemetry'' \<noteq> ''/engineering_data/temp_detector''"
  "''/engineering_data/NomHK_telemetry'' \<noteq> ''/engineering_data/temp_housing''"
  "''/engineering_data/NomHK_telemetry'' \<noteq> ''/engineering_data/temp_radiator''"
  "''/engineering_data/temp_detector'' \<noteq> ''/engineering_data/temp_housing''"
  "''/engineering_data/temp_detector'' \<noteq> ''/engineering_data/temp_radiator''"
  "''/engineering_data/temp_housing'' \<noteq> ''/engineering_data/temp_radiator''"
  by simp_all

lemma hk_paths_distinct:
  "path_parts ''/engineering_data/temp_detector'' \<noteq> path_parts ''/engineering_data/temp_housing''"
  "path_parts ''/engineering_data/temp_detector'' \<noteq> path_parts ''/engineering_data/temp_radiator''"
  "path_parts ''/engineering_data/temp_housing'' \<noteq> path_parts ''/engineering_data/temp_radiator''"
  by (simp_all add: hk_paths)

lemma fill_nomhk_rows:
  assumes "fid s = Some f"
    and "unlimited_var f ''/engineering_data/NomHK_telemetry''"
    and "unlimited_var f ''/engineering_data/temp_detector''"
    and "unlimited_var f ''/engineering_data/temp_housing''"
    and "unlimited_var f ''/engineering_data/temp_radiator''"
    and "map_of (dset_stored s) ''/engineering_data/NomHK_telemetry'' = Some n0"
    and "map_of (dset_stored s) ''/engineering_data/temp_detector'' = Some n1"
    and "map_of (dset_stored s) ''/engineering_data/temp_housing'' = Some n2"
    and "map_of (dset_stored s) ''/engineering_data/temp_radiator'' = Some n3"
  shows "fst (fill_nomhk nomhk_data s) = None
    \<and> take (length nomhk_data)
         (drop n1 (stored_rows (snd (fill_nomhk nomhk_data s)) [''engineering_data'', ''temp_detector'']))
       = (if list_all (\<lambda>r. TS1_DEM_N_T r = 0) nomhk_data
          then replicate (length nomhk_data) (CInt 273)
          else frac_poly (map TS1_DEM_N_T nomhk_data) None)
    \<and> take (length nomhk_data)
         (drop n2 (stored_rows (snd (fill_nomhk nomhk_data s)) [''engineering_data'', ''temp_housing'']))
       = (if list_all (\<lambda>r. TS2_HOUSING_N_T r = 0) nomhk_data
          then replicate (length nomhk_data) (CInt 293)
          else frac_poly (map TS2_HOUSING_N_T nomhk_data) None)
    \<and> take (length nomhk_data)
         (drop n3 (stored_rows (snd (fill_nomhk nomhk_data s)) [''engineering_data'', ''temp_radiator'']))
       = (if list_all (\<lambda>r. TS3_RADIATOR_N_T r = 0) nomhk_data
          then replicate (length nomhk_data) (CInt 294)
          else frac_poly (map TS3_RADIATOR_N_T nomhk_data) None)"
proof (cases "nomhk_data = []")
  case True
  then show ?thesis
    by (simp add: fill_nomhk_def frac_poly_def)
next
  case False
  let ?D = "if list_all (\<lambda>r. TS1_DEM_N_T r = 0) nomhk_data
            then replicate (length nomhk_data) (CInt 273)
            else frac_poly (map TS1_DEM_N_T nomhk_data) None"
  let ?H = "if list_all (\<lambda>r. TS2_HOUSING_N_T r = 0) nomhk_data
            then replicate (length nomhk_data) (CInt 293)
            else frac_poly (map TS2_HOUSING_N_T nomhk_data) None"
  let ?R = "if list_all (\<lambda>r. TS3_RADIATOR_N_T r = 0) nomhk_data
            then replicate (length nomhk_data) (CInt 294)
            else frac_poly (map TS3_RADIATOR_N_T nomhk_data) None"
  have len: "length ?D = length nomhk_data" "length ?H = length nomhk_data"
    "length ?R = length nomhk_data"
    by (simp_all add: length_frac_poly)
  from four_appends [OF assms hk_names_distinct hk_paths_distinct,
      of "map CRec nomhk_data" ?D ?H ?R]
  obtain s' where
    run: "fill_nomhk nomhk_data s = (None, s')"
    and d: "take (length ?D) (drop n1 (stored_rows s' (path_parts ''/engineering_data/temp_detector''))) = ?D"
    and h: "take (length ?H) (drop n2 (stored_rows s' (path_parts ''/engineering_data/temp_housing''))) = ?H"
    and r: "take (length ?R) (drop n3 (stored_rows s' (path_parts ''/engineering_data/temp_radiator''))) = ?R"
    unfolding fill_nomhk_chain [OF False] by blast
  show ?thesis
    using d h r unfolding len hk_paths run by simp
qed

text \<open>
  Claim C3, as the code has it. On an open product in which \<open>NomHK_telemetry\<close> and the
  three temperature variables have an unlimited first dimension and are keys of the
  table, \<open>fill_nomhk\<close> returns normally and appends, for each channel, one temperature
  per record of the batch: the fallback constant of the channel (detector 273, housing
  293, radiator 294) for every record when all readings of the channel in the batch are
  0, and otherwise the result of \<open>frac_poly\<close> on all readings of the batch, the zero ones
  included.
\<close>

theorem fill_nomhk_batch_conversion:
  assumes "fid s = Some f"
    and "unlimited_var f ''/engineering_data/NomHK_telemetry''"
    and "unlimited_var f ''/engineering_data/temp_detector''"
    and "unlimited_var f ''/engineering_data/temp_housing''"
    and "unlimited_var f ''/engineering_data/temp_radiator''"
    and "map_of (dset_stored s) ''/engineering_data/NomHK_telemetry'' = Some n0"
    and "map_of (dset_stored s) ''/engineering_data/temp_detector'' = Some n1"
    and "map_of (dset_stored s) ''/engineering_data/temp_housing'' = Some n2"
    and "map_of (dset_stored s) ''/engineering_data/temp_radiator'' = Some n3"
  shows "fst (fill_nomhk nomhk_data s) = None
    \<and> take (length nomhk_data)
         (drop n1 (stored_rows (snd (fill_nomhk nomhk_data s)) [''engineering_data'', ''temp_detector'']))
       = (if list_all (\<lambda>r. TS1_DEM_N_T r = 0) nomhk_data
          then replicate (length nomhk_data) (CInt 273)
          else frac_poly (map TS1_DEM_N_T nomhk_data) None)
    \<and> take (length nomhk_data)
         (drop n2 (stored_rows (snd (fill_nomhk nomhk_data s)) [''engineering_data'', ''temp_housing'']))
       = (if list_all (\<lambda>r. TS2_HOUSING_N_T r = 0) nomhk_data
          then replicate (length nomhk_data) (CInt 293)
          else frac_poly (map TS2_HOUSING_N_T nomhk_data) None)
    \<and> take (length nomhk_data)
         (drop n3 (stored_rows (snd (fill_nomhk nomhk_data s)) [''engineering_data'', ''temp_radiator'']))
       = (if list_all (\<lambda>r. TS3_RADIATOR_N_T r = 0) nomhk_data
          then replicate (length nomhk_data) (CInt 294)
          else frac_poly (map TS3_RADIATOR_N_T nomhk_data) None)"
  by (rule fill_nomhk_rows [OF assms])

lemma example_hk_unlimited:
  "unlimited_var L1A_example_file ''/engineering_data/NomHK_telemetry''"
  "unlimited_var L1A_example_file ''/engineering_data/temp_detector''"
  "unlimited_var L1A_example_file ''/engineering_data/temp_housing''"
  "unlimited_var L1A_example_file ''/engineering_data/temp_radiator''"
  by (simp_all add: unlimited_var_def dset_present_def nc_getitem_def hk_paths
      L1A_example_file_def unlim_var_def Let_def)

lemma example_hk_counters:
  "map_of (dset_stored L1A_example) ''/engineering_data/NomHK_telemetry'' = Some 0"
  "map_of (dset_stored L1A_example) ''/engineering_data/temp_detector'' = Some 0"
  "map_of (dset_stored L1A_example) ''/engineering_data/temp_housing'' = Some 0"
  "map_of (dset_stored L1A_example) ''/engineering_data/temp_radiator'' = Some 0"
  by (simp_all add: L1A_example_def L1Aio_dset_stored_def)

lemma mixed_batch_facts:
  "length mixed_batch = 2"
  "list_all (\<lambda>r. TS1_DEM_N_T r = 0) mixed_batch = False"
  "list_all (\<lambda>r. TS2_HOUSING_N_T r = 0) mixed_batch = True"
  "list_all (\<lambda>r. TS3_RADIATOR_N_T r = 0) mixed_batch = True"
  "map TS1_DEM_N_T mixed_batch = [0, 5]"
  "TS1_DEM_N_T (hd mixed_batch) = 0"
  by (simp_all add: mixed_batch_def)

lemma frac_poly_zero_first: "take 1 (frac_poly (0 # xs) None) = [CNaN]"
  by (simp add: frac_poly_def frac_poly_elem_def default_coefs_def)

text \<open>
  The theorem at the small product and the batch of two records: the detector channel
  is converted by \<open>frac_poly\<close> as a whole, the housing and radiator channels get their
  fallback constants.
\<close>

theorem fill_nomhk_batch_conversion_witness:
  "fid L1A_example = Some L1A_example_file
   \<and> unlimited_var L1A_example_file ''/engineering_data/temp_detector''
   \<and> map_of (dset_stored L1A_example) ''/engineering_data/temp_detector'' = Some 0
   \<and> fst (fill_nomhk mixed_batch L1A_example) = None
   \<and> take 2 (stored_rows (snd (fill_nomhk mixed_batch L1A_example))
               [''engineering_data'', ''temp_detector''])
      = frac_poly [0, 5] None
   \<and> take 2 (stored_rows (snd (fill_nomhk mixed_batch L1A_example))
               [''engineering_data'', ''temp_housing''])
      = [CInt 293, CInt 293]
   \<and> take 2 (stored_rows (snd (fill_nomhk mixed_batch L1A_example))
               [''engineering_data'', ''temp_radiator''])
      = [CInt 294, CInt 294]"
proof -
  have r: "replicate 2 (CInt 293) = [CInt 293, CInt 293]"
    "replicate 2 (CInt 294) = [CInt 294, CInt 294]"
    by (simp_all add: replicate_small)
  from fill_nomhk_batch_conversion [OF L1A_example_facts(1) example_hk_unlimited
      example_hk_counters, of mixed_batch]
  show ?thesis
    unfolding mixed_batch_facts
    using L1A_example_facts(1) example_hk_unlimited(2) example_hk_counters(2) r
    by simp
qed

text \<open>
  Claim C3 as stated fails: in the batch of two records the detector reading of the
  first record is 0, and the temperature stored for it is not the fallback 273 but the
  value of the polynomial at 0, which is not a finite number.
\<close>

theorem fill_nomhk_zero_reading_not_fallback:
  "TS1_DEM_N_T (hd mixed_batch) = 0
   \<and> fst (fill_nomhk mixed_batch L1A_example) = None
   \<and> take 1 (stored_rows (snd (fill_nomhk mixed_batch L1A_example))
               [''engineering_data'', ''temp_detector''])
      = [CNaN]
   \<and> take 1 (stored_rows (snd (fill_nomhk mixed_batch L1A_example))
               [''engineering_data'', ''temp_detector''])
      \<noteq> [CInt 273]"
proof -
  from fill_nomhk_rows [OF L1A_example_facts(1) example_hk_unlimited
      example_hk_counters, of mixed_batch]
  have a: "fst (fill_nomhk mixed_batch L1A_example) = None"
    and b: "take 2 (stored_rows (snd (fill_nomhk mixed_batch L1A_example))
               [''engineering_data'', ''temp_detector'']) = frac_poly [0, 5] None"
    unfolding mixed_batch_facts by simp_all
  have "take 1 (take 2 (stored_rows (snd (fill_nomhk mixed_batch L1A_example))
               [''engineering_data'', ''temp_detector''])) = [CNaN]"
    unfolding b by (rule frac_poly_zero_first)
  then have c: "take 1 (stored_rows (snd (fill_nomhk mixed_batch L1A_example))
               [''engineering_data'', ''temp_detector'']) = [CNaN]"
    by simp
  show ?thesis
    using a c by (simp add: mixed_batch_facts)
qed

end
